theory Spec2Isabelle
  imports Complex_Main
begin

section \<open>Python values used by the model\<close>

text \<open>
  Exceptions are values. Each constructor is one exception class that the embedded code
  can raise; the payload is what the raise site passes to it.
\<close>

datatype value_error_info =
    NotAValidEnumValue string   \<comment> \<open>raised by the call \<open>VirtualPromptStyle(value)\<close>\<close>
  | StyleNotRecognized string   \<comment> \<open>the message built in the \<open>else\<close> branch of \<open>__init__\<close>\<close>
  | RaggedSequence              \<comment> \<open>\<open>torch.tensor\<close> on rows of different lengths\<close>

datatype error =
    ValueError value_error_info
  | KeyError string
  | AssertionError string
  | RuntimeError string
  | ModuleNotFoundError string
  | ImportError string
  | InvalidVersion string       \<comment> \<open>\<open>Version\<close> on a string that is no version\<close>
  | ExternalError string        \<comment> \<open>an exception of a library outside the files at hand\<close>

subsection \<open>\<open>str\<close> of an integer\<close>

definition decimal_digits :: string where
  "decimal_digits = ''0123456789''"

definition digit_char :: "nat \<Rightarrow> char" where
  "digit_char d = decimal_digits ! d"

function str_nat :: "nat \<Rightarrow> string" where
  "str_nat n = (if n < 10 then [digit_char n] else str_nat (n div 10) @ [digit_char (n mod 10)])"
  by pat_completeness auto
termination
  by (relation "measure (\<lambda>n. n)") auto

declare str_nat.simps [simp del]

definition str_int :: "int \<Rightarrow> string" where
  "str_int i = (if i < 0 then CHR ''-'' # str_nat (nat (- i)) else str_nat (nat i))"

text \<open>Reading a decimal numeral back; used only to show that \<open>str_nat\<close> loses nothing.\<close>

definition digit_value :: "char \<Rightarrow> nat" where
  "digit_value c = length (takeWhile (\<lambda>x. x \<noteq> c) decimal_digits)"

definition nat_of_decimal :: "string \<Rightarrow> nat" where
  "nat_of_decimal s = foldl (\<lambda>a c. 10 * a + digit_value c) 0 s"

subsection \<open>\<open>range(n)\<close>\<close>

definition range_py :: "int \<Rightarrow> int list" where
  "range_py n = map int [0..<nat n]"

section \<open>\<open>get_pseudo_tokens\<close>\<close>

text \<open>
  The enum \<open>VirtualPromptPlaceholderToken\<close> is declared outside the files at hand, so its
  two values are parameters. The docstring of \<open>get_pseudo_tokens\<close> fixes them for the
  example it gives: \<open><prompt_\<close> and \<open>>\<close>.
\<close>

record VirtualPromptPlaceholderToken =
  BASE :: string
  END :: string

definition docstring_placeholder :: VirtualPromptPlaceholderToken where
  "docstring_placeholder = \<lparr>BASE = ''<prompt_'', END = ''>''\<rparr>"

definition get_pseudo_tokens :: "VirtualPromptPlaceholderToken \<Rightarrow> int \<Rightarrow> string list" where
  "get_pseudo_tokens ph num_virtual_tokens =
     map (\<lambda>i. BASE ph @ str_int i @ END ph) (range_py num_virtual_tokens)"

section \<open>Residual padding in \<open>collate_fn\<close>\<close>

text \<open>
  Lines 275 to 280 and 285 of \<open>collate_fn\<close>. Python's \<open>%\<close> on integers takes the sign of
  the divisor, as \<open>mod\<close> on \<open>int\<close> does; the divisor here is \<open>tp_workers > 1\<close>.
\<close>

definition resi_padding :: "int \<Rightarrow> int \<Rightarrow> int" where
  "resi_padding tp_workers batch_max =
     (if tp_workers > 1 then (tp_workers - (batch_max - 1) mod tp_workers) mod tp_workers else 0)"

definition padded_batch_max :: "int \<Rightarrow> int \<Rightarrow> int" where
  "padded_batch_max tp_workers batch_max = batch_max + resi_padding tp_workers batch_max"

definition trimmed_batch_max :: "int \<Rightarrow> int \<Rightarrow> int" where
  "trimmed_batch_max tp_workers batch_max = padded_batch_max tp_workers batch_max - 1"

section \<open>Task templates\<close>

text \<open>
  One element of the config list \<open>cfg.task_templates\<close>. The two keys read with
  \<open>task.get(key, default)\<close> may be absent, which is \<open>None\<close> here.
\<close>

record task_cfg =
  taskname :: string
  prompt_template :: string
  answer_only_loss :: "bool option"
  answer_field :: "string option"
  truncate_field :: "string option"
  total_virtual_tokens :: int
  virtual_token_splits :: "int list"

text \<open>The dictionary stored in \<open>self.task_templates\<close> under a task name.\<close>

record template_entry =
  entry_prompt_template :: string
  entry_prompt_template_fields :: "string list"
  entry_answer_only_loss :: bool
  entry_answer_field :: "string option"
  entry_truncate_field :: "string option"
  entry_total_virtual_tokens :: int
  entry_virtual_token_splits :: "int list"
  entry_task_id_num :: int

text \<open>
  \<open>re.findall("\{(.*?)\}", s)\<close>: the texts between an opening brace and the first closing
  brace after it, left to right, without overlap. The dot does not match a newline, so an
  attempt that meets a newline before a closing brace fails, and so does every attempt
  that starts between that opening brace and the newline. The scanner keeps the text
  collected since the opening brace, reversed, or \<open>None\<close> outside braces.
\<close>

fun findall_braces :: "string option \<Rightarrow> string \<Rightarrow> string list" where
  "findall_braces st [] = []"
| "findall_braces None (c # cs) =
     (if c = CHR ''{'' then findall_braces (Some []) cs else findall_braces None cs)"
| "findall_braces (Some acc) (c # cs) =
     (if c = CHR ''}'' then rev acc # findall_braces None cs
      else if c = CHR 0x0A then findall_braces None cs
      else findall_braces (Some (c # acc)) cs)"

definition re_findall_fields :: "string \<Rightarrow> string list" where
  "re_findall_fields s = findall_braces None s"

datatype VirtualPromptStyle = P_TUNING | PROMPT_TUNING | INFERENCE | NO_PROMPT

datatype VirtualPromptSource = PROMPT_TABLE | PROMPT_ENCODER | NO_PROMPT

text \<open>The keys of the model config that \<open>__init__\<close> reads.\<close>

record model_cfg =
  cfg_existing_tasks :: "string list option"
  cfg_new_tasks :: "string list option"
  cfg_virtual_prompt_style :: string
  cfg_language_model_path :: "string option"
  cfg_task_templates :: "task_cfg list"

text \<open>
  The attributes of the model object that the embedded methods read or assign. The
  tokenizer and the frozen model belong to classes outside the files at hand; they are
  type parameters.
\<close>

record ('tok, 'f) model =
  cfg :: model_cfg
  tokenizer :: 'tok
  existing_tasks :: "string list"
  new_tasks :: "string list"
  virtual_prompt_style :: VirtualPromptStyle
  frozen_model :: "'f option"
  task_templates :: "string \<rightharpoonup> template_entry"
  task_id_num_to_name :: "int \<rightharpoonup> string"
  max_virtual_tokens :: int
  total_new_task_virtual_tokens :: "int option"
  pseudo_tokens :: "string list"
  pseudo_token_ids :: "int list"
  pseudo_token_ids_start :: "int option"
  pad_token_id :: int
  virtual_prompt_source :: VirtualPromptSource

subsection \<open>\<open>load_task_templates\<close>\<close>

definition make_entry :: "task_cfg \<Rightarrow> int \<Rightarrow> template_entry" where
  "make_entry task task_id_num =
     \<lparr>entry_prompt_template = prompt_template task,
      entry_prompt_template_fields = re_findall_fields (prompt_template task),
      entry_answer_only_loss = (case answer_only_loss task of None \<Rightarrow> False | Some b \<Rightarrow> b),
      entry_answer_field = answer_field task,
      entry_truncate_field = truncate_field task,
      entry_total_virtual_tokens = total_virtual_tokens task,
      entry_virtual_token_splits = virtual_token_splits task,
      entry_task_id_num = task_id_num\<rparr>"

text \<open>The \<open>for\<close> loop of lines 420 to 434; the second argument is the local \<open>task_id_num\<close>.\<close>

fun load_loop :: "task_cfg list \<Rightarrow> int \<Rightarrow> ('tok, 'f) model \<Rightarrow> ('tok, 'f) model" where
  "load_loop [] task_id_num self = self"
| "load_loop (task # rest) task_id_num self =
     load_loop rest (task_id_num + 1)
       (self\<lparr>task_templates := (task_templates self)(taskname task \<mapsto> make_entry task task_id_num),
             max_virtual_tokens := max (max_virtual_tokens self) (total_virtual_tokens task),
             task_id_num_to_name := (task_id_num_to_name self)(task_id_num \<mapsto> taskname task)\<rparr>)"

text \<open>
  \<open>all(self.task_templates[taskname]["total_virtual_tokens"] == expected for taskname in
  self.new_tasks)\<close>: the generator is consumed left to right and \<open>all\<close> stops at the first
  false element; a name that is not a key raises \<open>KeyError\<close> when its turn comes.
\<close>

fun all_tokens_match :: "(string \<rightharpoonup> template_entry) \<Rightarrow> int \<Rightarrow> string list \<Rightarrow> error + bool" where
  "all_tokens_match tt expected [] = Inr True"
| "all_tokens_match tt expected (name # rest) =
     (case tt name of
        None \<Rightarrow> Inl (KeyError name)
      | Some e \<Rightarrow>
          if entry_total_virtual_tokens e = expected then all_tokens_match tt expected rest
          else Inr False)"

definition mismatch_message :: string where
  "mismatch_message =
     ''Total virtual tokens for each task tuned simultaneously must match. '' @
     ''If you want to use a different number of virtual tokens for different tasks, tune them separately.''"

definition reset_tables :: "('tok, 'f) model \<Rightarrow> ('tok, 'f) model" where
  "reset_tables self =
     self\<lparr>task_templates := Map.empty, task_id_num_to_name := Map.empty, max_virtual_tokens := 0\<rparr>"

definition check_new_tasks :: "('tok, 'f) model \<Rightarrow> error + ('tok, 'f) model" where
  "check_new_tasks self =
     (if new_tasks self \<noteq> [] then
        (let new_task_name = hd (new_tasks self) in
         case task_templates self new_task_name of
           None \<Rightarrow> Inl (KeyError new_task_name)
         | Some e \<Rightarrow>
             (let self = self\<lparr>total_new_task_virtual_tokens := Some (entry_total_virtual_tokens e)\<rparr> in
              case all_tokens_match (task_templates self) (entry_total_virtual_tokens e) (new_tasks self) of
                Inl err \<Rightarrow> Inl err
              | Inr ok \<Rightarrow> if ok then Inr self else Inl (AssertionError mismatch_message)))
      else Inr self)"

text \<open>The object after the loop, before the check of the new tasks.\<close>

definition loaded_tables :: "('tok, 'f) model \<Rightarrow> task_cfg list \<Rightarrow> ('tok, 'f) model" where
  "loaded_tables self templates = load_loop templates 0 (reset_tables self)"

definition load_task_templates :: "('tok, 'f) model \<Rightarrow> task_cfg list \<Rightarrow> error + ('tok, 'f) model" where
  "load_task_templates self templates = check_new_tasks (loaded_tables self templates)"

text \<open>The lookup \<open>self.task_templates[taskname]["total_virtual_tokens"]\<close>; \<open>None\<close> is a missing key.\<close>

definition virtual_tokens_of :: "('tok, 'f) model \<Rightarrow> string \<Rightarrow> int option" where
  "virtual_tokens_of self name = map_option entry_total_virtual_tokens (task_templates self name)"

section \<open>\<open>MegatronFusedRetrievalAdapterModel.__init__\<close>\<close>

text \<open>
  What \<open>__init__\<close> calls outside the files at hand, as parameters: the table of the enum
  \<open>VirtualPromptStyle\<close> (which value denotes which member), \<open>MegatronGPTModel.restore_from\<close>
  (its second argument is \<open>override_config_path\<close>, absent in the call that asks for the
  config; a failure is the text of whatever it raises), the placeholder enum, and the
  tokenizer's methods.
\<close>

record ('tok, 'f) init_env =
  style_of_value :: "string \<Rightarrow> VirtualPromptStyle option"
  restore_from :: "string option \<Rightarrow> 'f option \<Rightarrow> string + 'f"
  placeholder :: VirtualPromptPlaceholderToken
  add_special_tokens :: "string list \<Rightarrow> 'tok \<Rightarrow> 'tok"
  token_to_id :: "'tok \<Rightarrow> string \<Rightarrow> int"
  pad_id :: "'tok \<Rightarrow> int option"
  unk_id :: "'tok \<Rightarrow> int"

text \<open>
  Modelled from the spec: \<open>tokenizer.tokens_to_ids\<close>, a method of the tokenizer classes,
  which are not among the files at hand. The spec has the placeholder strings "inserted
  into the tokenizer and mapped to token ids": one id for each string, in order.
\<close>

definition tokens_to_ids :: "('tok, 'f) init_env \<Rightarrow> 'tok \<Rightarrow> string list \<Rightarrow> int list" where
  "tokens_to_ids env tok tokens = map (token_to_id env tok) tokens"

text \<open>Lines 51 and 52.\<close>

definition init_tasks :: "('tok, 'f) model \<Rightarrow> ('tok, 'f) model" where
  "init_tasks self =
     self\<lparr>existing_tasks := (case cfg_existing_tasks (cfg self) of None \<Rightarrow> [] | Some ts \<Rightarrow> ts),
           new_tasks := (case cfg_new_tasks (cfg self) of None \<Rightarrow> [] | Some ts \<Rightarrow> ts)\<rparr>"

text \<open>Line 53: the enum is called with the config value and raises on a value of no member.\<close>

definition init_style :: "('tok, 'f) init_env \<Rightarrow> model_cfg \<Rightarrow> ('tok, 'f) model \<Rightarrow> error + ('tok, 'f) model" where
  "init_style env cfg0 self =
     (case style_of_value env (cfg_virtual_prompt_style cfg0) of
        None \<Rightarrow> Inl (ValueError (NotAValidEnumValue (cfg_virtual_prompt_style cfg0)))
      | Some style \<Rightarrow> Inr (self\<lparr>virtual_prompt_style := style\<rparr>))"

text \<open>
  Lines 54 to 67. A path that is \<open>None\<close> or the empty string is false in the \<open>if\<close>. The
  conversion \<open>.to(dtype)\<close> of the restored model counts as part of the second call. Line
  69 assigns an empty module list to \<open>self.layers\<close>, an attribute no definition here reads.
\<close>

definition init_frozen_model :: "('tok, 'f) init_env \<Rightarrow> model_cfg \<Rightarrow> ('tok, 'f) model \<Rightarrow> error + ('tok, 'f) model" where
  "init_frozen_model env cfg0 self =
     (case restore_from env (cfg_language_model_path cfg0) None of
        Inl e \<Rightarrow> Inl (ExternalError e)
      | Inr frozen_model_cfg \<Rightarrow>
          if cfg_language_model_path cfg0 \<noteq> None \<and> cfg_language_model_path cfg0 \<noteq> Some [] then
            (case restore_from env (cfg_language_model_path cfg0) (Some frozen_model_cfg) of
               Inl e \<Rightarrow> Inl (ExternalError e)
             | Inr m \<Rightarrow> Inr (self\<lparr>frozen_model := Some m\<rparr>))
          else Inr self)"

text \<open>Lines 73 to 77.\<close>

definition init_pseudo_tokens :: "('tok, 'f) init_env \<Rightarrow> ('tok, 'f) model \<Rightarrow> ('tok, 'f) model" where
  "init_pseudo_tokens env self =
     (let self = self\<lparr>pseudo_tokens := get_pseudo_tokens (placeholder env) (max_virtual_tokens self)\<rparr>;
          self = self\<lparr>tokenizer := add_special_tokens env (pseudo_tokens self) (tokenizer self)\<rparr>;
          self = self\<lparr>pseudo_token_ids := tokens_to_ids env (tokenizer self) (pseudo_tokens self)\<rparr>;
          self = self\<lparr>pseudo_token_ids_start :=
                   (if pseudo_token_ids self \<noteq> [] then Some (hd (pseudo_token_ids self)) else None)\<rparr>
      in self\<lparr>pad_token_id :=
                (case pad_id env (tokenizer self) of
                   Some p \<Rightarrow> p
                 | None \<Rightarrow> unk_id env (tokenizer self))\<rparr>)"

text \<open>Lines 80 to 91.\<close>

definition not_recognized_message :: "string \<Rightarrow> string" where
  "not_recognized_message v =
     [CHR 0x0A] @ ''virtual prompt style '' @ [CHR 0x27] @ v @ [CHR 0x27] @
     '' not recognized, please use one of '' @ [CHR 0x27] @ ''prompt-tuning'' @ [CHR 0x27] @
     '' or '' @ [CHR 0x27] @ ''p-tuning'' @ [CHR 0x27]"

definition init_source :: "model_cfg \<Rightarrow> ('tok, 'f) model \<Rightarrow> error + ('tok, 'f) model" where
  "init_source cfg0 self =
     (if virtual_prompt_style self \<in> set [PROMPT_TUNING, INFERENCE] then
        Inr (self\<lparr>virtual_prompt_source := PROMPT_TABLE\<rparr>)
      else if virtual_prompt_style self = P_TUNING then
        Inr (self\<lparr>virtual_prompt_source := PROMPT_ENCODER\<rparr>)
      else if virtual_prompt_style self = VirtualPromptStyle.NO_PROMPT then
        Inr (self\<lparr>virtual_prompt_source := VirtualPromptSource.NO_PROMPT\<rparr>)
      else Inl (ValueError (StyleNotRecognized (not_recognized_message (cfg_virtual_prompt_style cfg0)))))"

text \<open>
  The constructor, from line 50 on. Its argument \<open>self\<close> is the object as the parent
  class's constructor leaves it, with \<open>cfg\<close> and \<open>tokenizer\<close> set; registering the adapter
  class (lines 47 and 48) does not touch the object.
\<close>

definition init :: "('tok, 'f) init_env \<Rightarrow> model_cfg \<Rightarrow> ('tok, 'f) model \<Rightarrow> error + ('tok, 'f) model" where
  "init env cfg0 self =
     (case init_style env cfg0 (init_tasks self) of
        Inl e \<Rightarrow> Inl e
      | Inr self \<Rightarrow>
          (case init_frozen_model env cfg0 self of
             Inl e \<Rightarrow> Inl e
           | Inr self \<Rightarrow>
               (case load_task_templates self (cfg_task_templates (cfg self)) of
                  Inl e \<Rightarrow> Inl e
                | Inr self \<Rightarrow> init_source cfg0 (init_pseudo_tokens env self))))"

section \<open>\<open>pad_batch_and_build_loss_mask\<close>\<close>

text \<open>
  Tensors are nested lists. \<open>torch.tensor\<close> with \<open>dtype=torch.long\<close> stores a list of rows
  row by row into 64-bit signed integers: a row whose length is not that of the first
  row raises \<open>ValueError\<close>, and an element outside the 64-bit range raises \<open>RuntimeError\<close>.
  \<open>torch.stack\<close> wants at least one tensor, and tensors of one size. \<open>float(b)\<close> of a
  boolean is \<open>1.0\<close> or \<open>0.0\<close>, both of which a \<open>torch.float\<close> tensor holds as they are.
\<close>

definition in_int64 :: "int \<Rightarrow> bool" where
  "in_int64 x \<longleftrightarrow> - (2 ^ 63) \<le> x \<and> x < 2 ^ 63"

fun store_long_rows :: "nat \<Rightarrow> int list list \<Rightarrow> error option" where
  "store_long_rows n [] = None"
| "store_long_rows n (row # rest) =
     (if length row \<noteq> n then Some (ValueError RaggedSequence)
      else if list_ex (\<lambda>x. \<not> in_int64 x) row then Some (RuntimeError ''Overflow when unpacking long'')
      else store_long_rows n rest)"

definition torch_tensor_long :: "int list list \<Rightarrow> error + int list list" where
  "torch_tensor_long rows =
     (case store_long_rows (length (hd rows)) rows of
        Some e \<Rightarrow> Inl e
      | None \<Rightarrow> Inr rows)"

definition torch_stack :: "'a list list \<Rightarrow> error + 'a list list" where
  "torch_stack tensors =
     (if tensors = [] then Inl (RuntimeError ''stack expects a non-empty TensorList'')
      else if list_all (\<lambda>t. length t = length (hd tensors)) tensors then Inr tensors
      else Inl (RuntimeError ''stack expects each tensor to be equal size''))"

definition float_of_bool :: "bool \<Rightarrow> real" where
  "float_of_bool b = (if b then 1 else 0)"

text \<open>Lines 331 to 336.\<close>

definition build_loss_mask :: "('tok, 'f) model \<Rightarrow> int list \<Rightarrow> int option \<Rightarrow> real list" where
  "build_loss_mask self ids answer_start_idx =
     (case answer_start_idx of
        Some a \<Rightarrow> map (\<lambda>idx. float_of_bool (idx \<ge> a)) (range_py (int (length ids)))
      | None \<Rightarrow> map (\<lambda>token_id. float_of_bool (token_id \<notin> set (pseudo_token_ids self))) ids)"

text \<open>
  The loop of lines 330 to 347 over \<open>zip(input_ids, answer_starts)\<close>, returning the two
  lists it appends to. A list times a negative number is empty.
\<close>

fun pad_rows :: "('tok, 'f) model \<Rightarrow> int \<Rightarrow> (int list \<times> int option) list \<Rightarrow> int list list \<times> real list list" where
  "pad_rows self batch_max [] = ([], [])"
| "pad_rows self batch_max ((ids, answer_start_idx) # rest) =
     (let loss_mask = build_loss_mask self ids answer_start_idx;
          input_length = int (length ids);
          padding_length = batch_max - input_length;
          pad_extend = replicate (nat padding_length) (pad_token_id self);
          (padded_input_ids, batch_loss_masks) = pad_rows self batch_max rest
      in ((ids @ pad_extend) # padded_input_ids,
          (loss_mask @ replicate (nat padding_length) 0) # batch_loss_masks))"

definition pad_batch_and_build_loss_mask ::
  "('tok, 'f) model \<Rightarrow> int list list \<Rightarrow> int \<Rightarrow> int option list \<Rightarrow> error + (int list list \<times> real list list)" where
  "pad_batch_and_build_loss_mask self input_ids batch_max answer_starts =
     (case pad_rows self batch_max (zip input_ids answer_starts) of
        (padded_input_ids, batch_loss_masks) \<Rightarrow>
          (case torch_tensor_long padded_input_ids of
             Inl e \<Rightarrow> Inl e
           | Inr padded \<Rightarrow>
               (case torch_stack batch_loss_masks of
                  Inl e \<Rightarrow> Inl e
                | Inr masks \<Rightarrow> Inr (padded, masks))))"

section \<open>\<open>textwrap.dedent\<close>\<close>

text \<open>
  The standard library's \<open>dedent\<close>, which the guard applies to its report. It works line
  by line, lines being what a newline separates: a line of blanks and tabs only becomes
  empty; the margin is what the indentations of the lines with other content have in
  common at their start; and the margin, if it is not empty, is taken off every line
  that begins with it.
\<close>

fun split_lines :: "string \<Rightarrow> string list" where
  "split_lines [] = [[]]"
| "split_lines (c # cs) =
     (if c = CHR 0x0A then [] # split_lines cs
      else (case split_lines cs of
              [] \<Rightarrow> [[c]]
            | line # rest \<Rightarrow> (c # line) # rest))"

fun join_lines :: "string list \<Rightarrow> string" where
  "join_lines [] = []"
| "join_lines [line] = line"
| "join_lines (line # rest) = line @ CHR 0x0A # join_lines rest"

definition blank :: "char \<Rightarrow> bool" where
  "blank c \<longleftrightarrow> c = CHR '' '' \<or> c = CHR 0x09"

text \<open>The substitution of \<open>^[ \t]+$\<close> by the empty string, on one line.\<close>

definition whitespace_only_sub :: "string \<Rightarrow> string" where
  "whitespace_only_sub line = (if line \<noteq> [] \<and> list_all blank line then [] else line)"

text \<open>The matches of \<open>(^[ \t]*)(?:[^ \t\n])\<close>: the indentation of each line that has content.\<close>

definition leading_whitespace_findall :: "string list \<Rightarrow> string list" where
  "leading_whitespace_findall lines =
     map (takeWhile blank) (filter (\<lambda>line. dropWhile blank line \<noteq> []) lines)"

definition startswith :: "string \<Rightarrow> string \<Rightarrow> bool" where
  "startswith s p \<longleftrightarrow> take (length p) s = p"

text \<open>
  The inner loop over \<open>zip(margin, indent)\<close>: the margin is cut at the first position where
  the two differ, and stays as it is when no such position is met.
\<close>

fun cut_at_difference :: "string \<Rightarrow> string \<Rightarrow> string" where
  "cut_at_difference (x # xs) (y # ys) = (if x \<noteq> y then [] else x # cut_at_difference xs ys)"
| "cut_at_difference xs [] = xs"
| "cut_at_difference [] ys = []"

text \<open>One round of the loop over the indentations; \<open>None\<close> is the margin before the first.\<close>

fun narrow_margin :: "string option \<Rightarrow> string \<Rightarrow> string option" where
  "narrow_margin None indent = Some indent"
| "narrow_margin (Some margin) indent =
     (if startswith indent margin then Some margin
      else if startswith margin indent then Some indent
      else Some (cut_at_difference margin indent))"

definition remove_margin :: "string \<Rightarrow> string \<Rightarrow> string" where
  "remove_margin margin line = (if startswith line margin then drop (length margin) line else line)"

definition dedent :: "string \<Rightarrow> string" where
  "dedent text =
     (let lines = map whitespace_only_sub (split_lines text) in
      case foldl narrow_margin None (leading_whitespace_findall lines) of
        None \<Rightarrow> join_lines lines
      | Some margin \<Rightarrow>
          if margin \<noteq> [] then join_lines (map (remove_margin margin) lines)
          else join_lines lines)"

section \<open>The guard for \<open>k2\<close>\<close>

text \<open>
  The module body of \<open>k2_guard.py\<close>, run at import. Its surroundings are parameters:
  \<open>package_available\<close> of the training framework, the outcome of \<open>import k2\<close> and the
  attribute \<open>__dev_version__\<close> of the module it yields, and the class \<open>Version\<close> (parsing,
  which has no result on a string that is no version, order and \<open>str\<close>).
\<close>

record ('v, 'm) k2_env =
  package_available :: "string \<Rightarrow> bool"
  import_k2 :: "string + 'm"
  dev_version :: "'m \<Rightarrow> string"
  Version :: "string \<Rightarrow> 'v option"
  version_less :: "'v \<Rightarrow> 'v \<Rightarrow> bool"
  version_str :: "'v \<Rightarrow> string"

text \<open>
  What the module body does with the library \<open>k2\<close> itself, in the order of the doing:
  the statement \<open>import k2\<close> of line 45, which runs the library's own module code, and the
  reading of \<open>k2.__dev_version__\<close> on line 47.
\<close>

datatype k2_use = Import_k2 | Read_dev_version

definition K2_MINIMUM_MAJOR_VERSION :: int where
  "K2_MINIMUM_MAJOR_VERSION = 1"

definition K2_MINIMUM_MINOR_VERSION :: int where
  "K2_MINIMUM_MINOR_VERSION = 11"

definition K2_INSTALLATION_MESSAGE :: string where
  "K2_INSTALLATION_MESSAGE =
     ''Could not import `k2`.'' @ [CHR 0x0A] @
     ''Please install k2 in one of the following ways:'' @ [CHR 0x0A] @
     ''1) Run `bash scripts/speech_recognition/k2/setup.sh`'' @ [CHR 0x0A] @
     ''2) (not recommended) Use any approach from https://k2-fsa.github.io/k2/installation/index.html '' @
     ''if your your cuda and pytorch versions are supported.'' @ [CHR 0x0A] @
     ''It is advised to always install k2 using setup.sh only, '' @
     ''as different versions of k2 may not interact with the NeMo code as expected.''"

text \<open>The formatted string of lines 52 to 55, before \<open>textwrap.dedent\<close>.\<close>

definition version_report :: "string \<Rightarrow> string \<Rightarrow> string" where
  "version_report minimum installed =
     [CHR 0x0A] @ replicate 12 CHR '' '' @ ''Minimum required k2 version: '' @ minimum @ '';'' @
     [CHR 0x0A] @ replicate 12 CHR '' '' @ ''Installed k2 version: '' @ installed @
     [CHR 0x0A] @ replicate 12 CHR '' ''"

text \<open>The argument of \<open>Version\<close> on line 30: the two numbers, formatted, around a dot.\<close>

definition minimum_version_text :: string where
  "minimum_version_text = str_int K2_MINIMUM_MAJOR_VERSION @ ''.'' @ str_int K2_MINIMUM_MINOR_VERSION"

text \<open>
  The run of the module body: the uses of \<open>k2\<close> it has made when it ends, and how it ends,
  with an exception or with the module \<open>k2\<close> bound for the importer.
\<close>

definition k2_guard :: "('v, 'm) k2_env \<Rightarrow> k2_use list \<times> (error + 'm)" where
  "k2_guard env =
     (case Version env minimum_version_text of
        None \<Rightarrow> ([], Inl (InvalidVersion minimum_version_text))
      | Some K2_MINIMUM_VERSION \<Rightarrow>
          if \<not> package_available env ''k2'' then
            ([], Inl (ModuleNotFoundError K2_INSTALLATION_MESSAGE))
          else
            (case import_k2 env of
               Inl e \<Rightarrow> ([Import_k2], Inl (ExternalError e))
             | Inr k2 \<Rightarrow>
                 (case Version env (dev_version env k2) of
                    None \<Rightarrow> ([Import_k2, Read_dev_version], Inl (InvalidVersion (dev_version env k2)))
                  | Some k2_version \<Rightarrow>
                      if version_less env k2_version K2_MINIMUM_VERSION then
                        ([Import_k2, Read_dev_version],
                         Inl (ImportError (dedent
                           (version_report (version_str env K2_MINIMUM_VERSION) (version_str env k2_version)))))
                      else ([Import_k2, Read_dev_version], Inr k2))))"

section \<open>Concrete inputs\<close>

text \<open>
  A config, an object and surroundings to run the definitions on. The tokenizer of the
  example is the list of the special tokens added so far; the id of a token is its
  position in that list.
\<close>

definition example_task :: "string \<Rightarrow> int \<Rightarrow> task_cfg" where
  "example_task name n =
     \<lparr>taskname = name, prompt_template = ''<|VIRTUAL_PROMPT_0|> {sentence} sentiment: {label}'',
      answer_only_loss = None, answer_field = Some ''label'', truncate_field = None,
      total_virtual_tokens = n, virtual_token_splits = [n]\<rparr>"

definition example_cfg :: "string \<Rightarrow> string list \<Rightarrow> task_cfg list \<Rightarrow> model_cfg" where
  "example_cfg style news templates =
     \<lparr>cfg_existing_tasks = None, cfg_new_tasks = Some news, cfg_virtual_prompt_style = style,
      cfg_language_model_path = Some ''gpt.nemo'', cfg_task_templates = templates\<rparr>"

definition example_model :: "string \<Rightarrow> string list \<Rightarrow> task_cfg list \<Rightarrow> (string list, unit) model" where
  "example_model style news templates =
     \<lparr>cfg = example_cfg style news templates, tokenizer = [], existing_tasks = [], new_tasks = news,
      virtual_prompt_style = INFERENCE, frozen_model = None, task_templates = Map.empty,
      task_id_num_to_name = Map.empty, max_virtual_tokens = 0,
      total_new_task_virtual_tokens = None, pseudo_tokens = [], pseudo_token_ids = [],
      pseudo_token_ids_start = None, pad_token_id = 0,
      virtual_prompt_source = VirtualPromptSource.NO_PROMPT\<rparr>"

definition example_env :: "(string list, unit) init_env" where
  "example_env =
     \<lparr>style_of_value =
        (\<lambda>v. if v = ''p-tuning'' then Some P_TUNING
             else if v = ''prompt-tuning'' then Some PROMPT_TUNING
             else if v = ''inference'' then Some INFERENCE
             else if v = ''no-prompt'' then Some VirtualPromptStyle.NO_PROMPT
             else None),
      restore_from = (\<lambda>path override. Inr ()),
      placeholder = docstring_placeholder,
      add_special_tokens = (\<lambda>tokens vocab. vocab @ tokens),
      token_to_id = (\<lambda>vocab t. int (length (takeWhile (\<lambda>x. x \<noteq> t) vocab))),
      pad_id = (\<lambda>vocab. None),
      unk_id = (\<lambda>vocab. 0)\<rparr>"

definition two_tasks :: "task_cfg list" where
  "two_tasks = [example_task ''sentiment'' 5, example_task ''intent'' 7]"

definition repeated_tasks :: "task_cfg list" where
  "repeated_tasks = [example_task ''sentiment'' 5, example_task ''sentiment'' 5]"

definition masking_model :: "(string list, unit) model" where
  "masking_model = (example_model ''p-tuning'' [] two_tasks)\<lparr>pseudo_token_ids := [7, 8]\<rparr>"

definition zero_tasks :: "task_cfg list" where
  "zero_tasks = [example_task ''sentiment'' 0]"

text \<open>
  Surroundings for the guard: a version is a pair of numbers, and the module \<open>k2\<close> is the
  text of its \<open>__dev_version__\<close>.
\<close>

definition example_k2_env :: "bool \<Rightarrow> string \<Rightarrow> (nat \<times> nat, string) k2_env" where
  "example_k2_env available installed =
     \<lparr>package_available = (\<lambda>name. available \<and> name = ''k2''),
      import_k2 = Inr installed,
      dev_version = (\<lambda>k2. k2),
      Version =
        (\<lambda>s. if s = ''1.11'' then Some (1, 11)
             else if s = ''1.9'' then Some (1, 9)
             else if s = ''1.24'' then Some (1, 24)
             else None),
      version_less = (\<lambda>v w. fst v < fst w \<or> fst v = fst w \<and> snd v < snd w),
      version_str = (\<lambda>v. str_nat (fst v) @ ''.'' @ str_nat (snd v))\<rparr>"

section \<open>Decimal numerals and ranges\<close>

lemma digit_cases:
  "d < 10 \<Longrightarrow> d = 0 \<or> d = 1 \<or> d = 2 \<or> d = 3 \<or> d = 4 \<or> d = 5 \<or> d = 6 \<or> d = 7 \<or> d = 8 \<or> d = (9::nat)"
  by arith

lemma digit_char_in:
  assumes "d < 10"
  shows "digit_char d \<in> set decimal_digits"
  using assms by (simp add: digit_char_def decimal_digits_def del: set_simps)

lemma digit_value_digit_char:
  assumes "d < 10"
  shows "digit_value (digit_char d) = d"
  using digit_cases [OF assms] by (elim disjE) (simp_all add: digit_char_def digit_value_def decimal_digits_def)

lemma nat_of_decimal_snoc: "nat_of_decimal (s @ [c]) = 10 * nat_of_decimal s + digit_value c"
  by (simp add: nat_of_decimal_def)

lemma nat_of_decimal_str_nat: "nat_of_decimal (str_nat n) = n"
proof (induction n rule: str_nat.induct)
  case (1 n)
  show ?case
  proof (cases "n < 10")
    case True
    then show ?thesis
      by (simp add: str_nat.simps [of n] nat_of_decimal_def digit_value_digit_char)
  next
    case False
    with 1 have "nat_of_decimal (str_nat (n div 10)) = n div 10" by simp
    with False show ?thesis
      by (simp add: str_nat.simps [of n] nat_of_decimal_snoc digit_value_digit_char)
  qed
qed

lemma str_nat_digits: "set (str_nat n) \<subseteq> set decimal_digits"
proof (induction n rule: str_nat.induct)
  case (1 n)
  show ?case
  proof (cases "n < 10")
    case True
    then have "str_nat n = [digit_char n]" by (simp add: str_nat.simps [of n])
    with digit_char_in [OF True] show ?thesis by simp
  next
    case False
    with 1 have ih: "set (str_nat (n div 10)) \<subseteq> set decimal_digits" by simp
    have d: "digit_char (n mod 10) \<in> set decimal_digits"
      by (rule digit_char_in) simp
    from False have "str_nat n = str_nat (n div 10) @ [digit_char (n mod 10)]"
      by (simp add: str_nat.simps [of n])
    with ih d show ?thesis by simp
  qed
qed

lemma str_int_nonneg: "0 \<le> i \<Longrightarrow> str_int i = str_nat (nat i)"
  by (simp add: str_int_def)

lemma length_range_py: "length (range_py n) = nat n"
  by (simp add: range_py_def)

lemma nth_range_py: "0 \<le> i \<Longrightarrow> i < n \<Longrightarrow> range_py n ! nat i = i"
  by (simp add: range_py_def)

lemma set_range_py: "set (range_py n) = {0..<n}"
  by (cases "0 \<le> n") (simp_all add: range_py_def image_int_atLeastLessThan)

lemma distinct_range_py: "distinct (range_py n)"
  by (simp add: range_py_def distinct_map inj_on_def)

lemma str_int_inj_nonneg:
  assumes "0 \<le> a" "0 \<le> b" "str_int a = str_int b"
  shows "a = b"
proof -
  from assms have "nat_of_decimal (str_nat (nat a)) = nat_of_decimal (str_nat (nat b))"
    by (simp add: str_int_nonneg)
  then have "nat a = nat b" by (simp add: nat_of_decimal_str_nat)
  with assms show ?thesis by simp
qed

section \<open>Pseudo tokens\<close>

text \<open>
  C1. For \<open>n \<ge> 0\<close>, \<open>get_pseudo_tokens(n)\<close> is a list of exactly \<open>n\<close> strings, all
  different, and the string at index \<open>i\<close> is the base marker, then \<open>str(i)\<close>, then the end
  marker. That \<open>str(i)\<close> is the decimal numeral of \<open>i\<close> is stated too: it consists of
  decimal digits and reads back as \<open>i\<close>.
\<close>

theorem get_pseudo_tokens_numbered:
  assumes "0 \<le> n"
  shows "length (get_pseudo_tokens ph n) = nat n \<and>
         distinct (get_pseudo_tokens ph n) \<and>
         (\<forall>i. 0 \<le> i \<and> i < n \<longrightarrow>
            get_pseudo_tokens ph n ! nat i = BASE ph @ str_int i @ END ph \<and>
            int (nat_of_decimal (str_int i)) = i \<and>
            set (str_int i) \<subseteq> set decimal_digits)"
proof -
  have len: "length (get_pseudo_tokens ph n) = nat n"
    by (simp add: get_pseudo_tokens_def length_range_py)
  have "inj_on (\<lambda>i. BASE ph @ str_int i @ END ph) (set (range_py n))"
  proof (rule inj_onI)
    fix a b
    assume "a \<in> set (range_py n)" "b \<in> set (range_py n)"
      and eq: "BASE ph @ str_int a @ END ph = BASE ph @ str_int b @ END ph"
    then have nonneg: "0 \<le> a" "0 \<le> b" by (simp_all add: set_range_py)
    from eq have "str_int a = str_int b" by simp
    with nonneg show "a = b" by (rule str_int_inj_nonneg)
  qed
  then have dist: "distinct (get_pseudo_tokens ph n)"
    by (simp add: get_pseudo_tokens_def distinct_map distinct_range_py)
  have each: "get_pseudo_tokens ph n ! nat i = BASE ph @ str_int i @ END ph \<and>
              int (nat_of_decimal (str_int i)) = i \<and>
              set (str_int i) \<subseteq> set decimal_digits"
    if "0 \<le> i" "i < n" for i
  proof -
    from that have "nat i < length (range_py n)" by (simp add: length_range_py)
    then have "get_pseudo_tokens ph n ! nat i = BASE ph @ str_int (range_py n ! nat i) @ END ph"
      by (simp add: get_pseudo_tokens_def)
    with that have a: "get_pseudo_tokens ph n ! nat i = BASE ph @ str_int i @ END ph"
      by (simp add: nth_range_py)
    from that have b: "int (nat_of_decimal (str_int i)) = i"
      by (simp add: str_int_nonneg nat_of_decimal_str_nat)
    from that have c: "set (str_int i) \<subseteq> set decimal_digits"
      by (simp only: str_int_nonneg str_nat_digits)
    from a b c show ?thesis by blast
  qed
  from len dist each show ?thesis by blast
qed

theorem get_pseudo_tokens_numbered_witness:
  "(0::int) \<le> 3 \<and>
   get_pseudo_tokens docstring_placeholder 3 = [''<prompt_0>'', ''<prompt_1>'', ''<prompt_2>''] \<and>
   length (get_pseudo_tokens docstring_placeholder 3) = nat 3 \<and>
   distinct (get_pseudo_tokens docstring_placeholder 3) \<and>
   get_pseudo_tokens docstring_placeholder 3 ! nat 2 =
     BASE docstring_placeholder @ str_int 2 @ END docstring_placeholder"
proof -
  have ex: "get_pseudo_tokens docstring_placeholder 3 = [''<prompt_0>'', ''<prompt_1>'', ''<prompt_2>'']"
    by code_simp
  have h: "(0::int) \<le> 3" by simp
  note inst = get_pseudo_tokens_numbered [OF h, of docstring_placeholder]
  from inst have l: "length (get_pseudo_tokens docstring_placeholder 3) = nat 3" by (rule conjunct1)
  from inst have d: "distinct (get_pseudo_tokens docstring_placeholder 3)" by blast
  from inst have "\<forall>i. 0 \<le> i \<and> i < 3 \<longrightarrow>
      get_pseudo_tokens docstring_placeholder 3 ! nat i =
        BASE docstring_placeholder @ str_int i @ END docstring_placeholder \<and>
      int (nat_of_decimal (str_int i)) = i \<and> set (str_int i) \<subseteq> set decimal_digits"
    by blast
  then have "(0::int) \<le> 2 \<and> (2::int) < 3 \<longrightarrow>
      get_pseudo_tokens docstring_placeholder 3 ! nat 2 =
        BASE docstring_placeholder @ str_int 2 @ END docstring_placeholder \<and>
      int (nat_of_decimal (str_int 2)) = 2 \<and> set (str_int 2) \<subseteq> set decimal_digits"
    by (rule spec)
  then have n: "get_pseudo_tokens docstring_placeholder 3 ! nat 2 =
        BASE docstring_placeholder @ str_int 2 @ END docstring_placeholder"
    by simp
  from h ex l d n show ?thesis by blast
qed

section \<open>Residual padding\<close>

lemma resi_aligned:
  fixes a t :: int
  shows "t dvd (a + (t - a mod t) mod t)"
proof -
  have split: "a + (t - a mod t) = t + t * (a div t)"
    using mult_div_mod_eq [of t a] by linarith
  have "(a + (t - a mod t) mod t) mod t = (a + (t - a mod t)) mod t"
    by (rule mod_add_right_eq)
  also have "\<dots> = (t + t * (a div t)) mod t"
    by (simp only: split)
  also have "\<dots> = 0"
    by simp
  finally show ?thesis
    by (simp only: mod_eq_0_iff_dvd)
qed

text \<open>
  C9. For \<open>batch_max \<ge> 1\<close> and \<open>tp_workers > 1\<close> the residual padding is below
  \<open>tp_workers\<close> (and not negative), and once it is added to \<open>batch_max\<close>, \<open>batch_max - 1\<close>,
  the length after the trim by one token, is a multiple of \<open>tp_workers\<close>. For
  \<open>tp_workers \<le> 1\<close> nothing is added.
\<close>

theorem resi_padding_aligns:
  "(1 \<le> batch_max \<and> 1 < tp_workers \<longrightarrow>
      0 \<le> resi_padding tp_workers batch_max \<and>
      resi_padding tp_workers batch_max < tp_workers \<and>
      tp_workers dvd (padded_batch_max tp_workers batch_max - 1) \<and>
      tp_workers dvd trimmed_batch_max tp_workers batch_max) \<and>
   (tp_workers \<le> 1 \<longrightarrow>
      resi_padding tp_workers batch_max = 0 \<and> padded_batch_max tp_workers batch_max = batch_max)"
proof -
  have rewrite: "batch_max + r - 1 = (batch_max - 1) + r" for r :: int
    by simp
  have aligned: "tp_workers dvd (batch_max + (tp_workers - (batch_max - 1) mod tp_workers) mod tp_workers - 1)"
    by (simp only: rewrite resi_aligned)
  have small: "1 < tp_workers \<Longrightarrow>
      0 \<le> resi_padding tp_workers batch_max \<and> resi_padding tp_workers batch_max < tp_workers"
    by (simp add: resi_padding_def)
  have big: "1 < tp_workers \<Longrightarrow> tp_workers dvd (padded_batch_max tp_workers batch_max - 1)"
    using aligned by (simp only: padded_batch_max_def resi_padding_def if_True)
  have none: "tp_workers \<le> 1 \<Longrightarrow>
      resi_padding tp_workers batch_max = 0 \<and> padded_batch_max tp_workers batch_max = batch_max"
    by (simp add: resi_padding_def padded_batch_max_def)
  from small big none show ?thesis
    by (simp only: trimmed_batch_max_def) blast
qed

theorem resi_padding_aligns_witness:
  "(1::int) \<le> 10 \<and> (1::int) < 4 \<and> resi_padding 4 10 = 3 \<and> (4::int) dvd trimmed_batch_max 4 10 \<and>
   (0::int) \<le> 1 \<and> resi_padding 0 10 = 0"
  using resi_padding_aligns [of 10 4] resi_padding_aligns [of 10 0]
  by (simp add: resi_padding_def)


section \<open>The loop of \<open>load_task_templates\<close>\<close>

lemma load_loop_new_tasks: "new_tasks (load_loop ts n self) = new_tasks self"
  by (induction ts arbitrary: n self) simp_all

lemma load_loop_names:
  "task_id_num_to_name (load_loop ts n self) k =
     (if n \<le> k \<and> k < n + int (length ts) then Some (taskname (ts ! nat (k - n)))
      else task_id_num_to_name self k)"
proof (induction ts arbitrary: n self)
  case Nil
  show ?case by auto
next
  case (Cons t ts)
  define self' where "self' =
     self\<lparr>task_templates := (task_templates self)(taskname t \<mapsto> make_entry t n),
          max_virtual_tokens := max (max_virtual_tokens self) (total_virtual_tokens t),
          task_id_num_to_name := (task_id_num_to_name self)(n \<mapsto> taskname t)\<rparr>"
  have step: "load_loop (t # ts) n self = load_loop ts (n + 1) self'"
    by (simp add: self'_def)
  have ih: "task_id_num_to_name (load_loop ts (n + 1) self') k =
     (if n + 1 \<le> k \<and> k < n + 1 + int (length ts) then Some (taskname (ts ! nat (k - (n + 1))))
      else task_id_num_to_name self' k)"
    by (rule Cons.IH)
  have old: "task_id_num_to_name self' k = (if k = n then Some (taskname t) else task_id_num_to_name self k)"
    by (simp add: self'_def)
  show ?case
  proof (cases "n + 1 \<le> k \<and> k < n + 1 + int (length ts)")
    case True
    then have "nat (k - n) = Suc (nat (k - (n + 1)))" by linarith
    with True ih show ?thesis by (simp only: step) simp
  next
    case False
    show ?thesis
    proof (cases "k = n")
      case True
      with ih old show ?thesis by (simp only: step) simp
    next
      case neq: False
      with False have "\<not> (n \<le> k \<and> k < n + int (length (t # ts)))" by simp linarith
      with False neq ih old show ?thesis by (simp only: step) simp
    qed
  qed
qed

lemma load_loop_absent:
  "name \<notin> taskname ` set ts \<Longrightarrow> task_templates (load_loop ts n self) name = task_templates self name"
  by (induction ts arbitrary: n self) simp_all

lemma load_loop_entry:
  assumes "i < length ts"
    and "\<forall>k. i < k \<and> k < length ts \<longrightarrow> taskname (ts ! k) \<noteq> taskname (ts ! i)"
  shows "task_templates (load_loop ts n self) (taskname (ts ! i)) = Some (make_entry (ts ! i) (n + int i))"
  using assms
proof (induction ts arbitrary: n self i)
  case Nil
  then show ?case by simp
next
  case (Cons t ts)
  show ?case
  proof (cases i)
    case 0
    have "taskname t \<notin> taskname ` set ts"
    proof
      assume "taskname t \<in> taskname ` set ts"
      then obtain j where j: "j < length ts" "taskname (ts ! j) = taskname t"
        by (auto simp: in_set_conv_nth)
      with Cons.prems(2) 0 have "taskname ((t # ts) ! Suc j) \<noteq> taskname ((t # ts) ! 0)"
        by (metis Suc_less_eq length_Cons zero_less_Suc)
      with j show False by simp
    qed
    with 0 show ?thesis by (simp add: load_loop_absent)
  next
    case (Suc j)
    with Cons.prems(1) have j: "j < length ts" by simp
    have later: "\<forall>k. j < k \<and> k < length ts \<longrightarrow> taskname (ts ! k) \<noteq> taskname (ts ! j)"
    proof (intro allI impI)
      fix k assume "j < k \<and> k < length ts"
      with Cons.prems(2) Suc have "taskname ((t # ts) ! Suc k) \<noteq> taskname ((t # ts) ! Suc j)"
        by (metis Suc_less_eq length_Cons)
      then show "taskname (ts ! k) \<noteq> taskname (ts ! j)" by simp
    qed
    from Cons.IH [OF j later] Suc show ?thesis by (simp add: algebra_simps)
  qed
qed

lemma last_with_name:
  assumes "i < length (ts :: task_cfg list)"
  shows "\<exists>j. i \<le> j \<and> j < length ts \<and> taskname (ts ! j) = taskname (ts ! i) \<and>
             (\<forall>k. j < k \<and> k < length ts \<longrightarrow> taskname (ts ! k) \<noteq> taskname (ts ! i))"
proof -
  define P where "P k \<longleftrightarrow> k < length ts \<and> taskname (ts ! k) = taskname (ts ! i)" for k
  have ex: "P i" using assms by (simp add: P_def)
  have bound: "k \<le> length ts" if "P k" for k using that by (simp add: P_def)
  have g: "P (Greatest P)" using ex bound by (rule GreatestI_nat)
  have le: "k \<le> Greatest P" if "P k" for k using that bound by (rule Greatest_le_nat)
  have "\<not> P k" if "Greatest P < k" for k
    using le [of k] that by auto
  then have "\<forall>k. Greatest P < k \<and> k < length ts \<longrightarrow> taskname (ts ! k) \<noteq> taskname (ts ! i)"
    by (auto simp: P_def)
  moreover have "i \<le> Greatest P" using ex by (rule le)
  ultimately show ?thesis using g by (auto simp: P_def)
qed

lemma load_loop_max:
  "\<forall>t\<in>set ts. total_virtual_tokens t \<le> max_virtual_tokens self \<Longrightarrow>
   max_virtual_tokens (load_loop ts n self) = max_virtual_tokens self"
  by (induction ts arbitrary: n self) simp_all

lemma all_tokens_match_True:
  "\<forall>u\<in>set ns. map_option entry_total_virtual_tokens (tt u) = Some c \<Longrightarrow>
   all_tokens_match tt c ns = Inr True"
  by (induction ns) auto

lemma all_tokens_match_False:
  "\<forall>u\<in>set pre. map_option entry_total_virtual_tokens (tt u) = Some c \<Longrightarrow>
   map_option entry_total_virtual_tokens (tt name) = Some c' \<Longrightarrow> c' \<noteq> c \<Longrightarrow>
   all_tokens_match tt c (pre @ name # rest) = Inr False"
  by (induction pre) auto

lemma all_tokens_match_KeyError:
  "\<forall>u\<in>set pre. map_option entry_total_virtual_tokens (tt u) = Some c \<Longrightarrow>
   tt name = None \<Longrightarrow>
   all_tokens_match tt c (pre @ name # rest) = Inl (KeyError name)"
  by (induction pre) auto

lemma check_new_tasks_Inr:
  assumes "check_new_tasks s = Inr s'"
  shows "\<exists>x. s' = s\<lparr>total_new_task_virtual_tokens := x\<rparr>"
proof (cases "new_tasks s = []")
  case True
  with assms have "s' = s\<lparr>total_new_task_virtual_tokens := total_new_task_virtual_tokens s\<rparr>"
    by (simp add: check_new_tasks_def)
  then show ?thesis ..
next
  case False
  with assms show ?thesis
    by (auto simp: check_new_tasks_def Let_def split: option.splits sum.splits if_splits)
qed

section \<open>Task ids\<close>

text \<open>
  C3, as the code has it. When \<open>load_task_templates\<close> returns, \<open>task_id_num_to_name\<close> maps
  exactly the numbers \<open>0, \<dots>, n - 1\<close>, and \<open>i\<close> to the name of the \<open>i\<close>-th task of the list.
  The entry stored under the name of the \<open>i\<close>-th task is the one made for the last task
  of the list that has this name, and carries that task's number; it carries \<open>i\<close> when
  no later task repeats the name.
\<close>

theorem load_task_templates_ids:
  assumes "load_task_templates self templates = Inr self'"
    and "i < length templates"
  shows "dom (task_id_num_to_name self') = {0..<int (length templates)} \<and>
         task_id_num_to_name self' (int i) = Some (taskname (templates ! i)) \<and>
         (\<exists>j. i \<le> j \<and> j < length templates \<and>
              taskname (templates ! j) = taskname (templates ! i) \<and>
              (\<forall>k. j < k \<and> k < length templates \<longrightarrow> taskname (templates ! k) \<noteq> taskname (templates ! i)) \<and>
              task_templates self' (taskname (templates ! i)) = Some (make_entry (templates ! j) (int j)) \<and>
              map_option entry_task_id_num (task_templates self' (taskname (templates ! i))) = Some (int j)) \<and>
         ((\<forall>k. i < k \<and> k < length templates \<longrightarrow> taskname (templates ! k) \<noteq> taskname (templates ! i)) \<longrightarrow>
            map_option entry_task_id_num (task_templates self' (taskname (templates ! i))) = Some (int i))"
proof -
  from assms(1) obtain x where self': "self' = (loaded_tables self templates)\<lparr>total_new_task_virtual_tokens := x\<rparr>"
    unfolding load_task_templates_def by (blast dest: check_new_tasks_Inr)
  have names: "task_id_num_to_name self' k =
      (if 0 \<le> k \<and> k < int (length templates) then Some (taskname (templates ! nat k)) else None)" for k
    using load_loop_names [of templates 0 "reset_tables self" k]
    by (simp add: self' loaded_tables_def reset_tables_def)
  have table: "task_templates self' = task_templates (load_loop templates 0 (reset_tables self))"
    by (simp add: self' loaded_tables_def)
  have d: "dom (task_id_num_to_name self') = {0..<int (length templates)}"
    by (auto simp: names dom_def split: if_splits)
  from assms(2) have n: "task_id_num_to_name self' (int i) = Some (taskname (templates ! i))"
    by (simp add: names)
  from last_with_name [OF assms(2)] obtain j where j: "i \<le> j" "j < length templates"
      "taskname (templates ! j) = taskname (templates ! i)"
      "\<forall>k. j < k \<and> k < length templates \<longrightarrow> taskname (templates ! k) \<noteq> taskname (templates ! i)"
    by blast
  from j have "\<forall>k. j < k \<and> k < length templates \<longrightarrow> taskname (templates ! k) \<noteq> taskname (templates ! j)"
    by simp
  with j(2) have "task_templates self' (taskname (templates ! j)) = Some (make_entry (templates ! j) (0 + int j))"
    unfolding table by (rule load_loop_entry)
  with j(3) have e: "task_templates self' (taskname (templates ! i)) = Some (make_entry (templates ! j) (int j))"
    by simp
  then have idj: "map_option entry_task_id_num (task_templates self' (taskname (templates ! i))) = Some (int j)"
    by (simp add: make_entry_def)
  have last: "map_option entry_task_id_num (task_templates self' (taskname (templates ! i))) = Some (int i)"
    if "\<forall>k. i < k \<and> k < length templates \<longrightarrow> taskname (templates ! k) \<noteq> taskname (templates ! i)"
  proof -
    from assms(2) that
    have "task_templates self' (taskname (templates ! i)) = Some (make_entry (templates ! i) (0 + int i))"
      unfolding table by (rule load_loop_entry)
    then show ?thesis by (simp add: make_entry_def)
  qed
  from d n j e idj last show ?thesis by blast
qed

theorem load_task_templates_ids_witness:
  "load_task_templates (example_model ''p-tuning'' [''intent''] two_tasks) two_tasks =
     Inr ((loaded_tables (example_model ''p-tuning'' [''intent''] two_tasks) two_tasks)
            \<lparr>total_new_task_virtual_tokens := Some 7\<rparr>) \<and>
   (1::nat) < length two_tasks \<and>
   task_id_num_to_name
     ((loaded_tables (example_model ''p-tuning'' [''intent''] two_tasks) two_tasks)
        \<lparr>total_new_task_virtual_tokens := Some 7\<rparr>) (int 1) = Some (taskname (two_tasks ! 1)) \<and>
   map_option entry_task_id_num
     (task_templates
        ((loaded_tables (example_model ''p-tuning'' [''intent''] two_tasks) two_tasks)
           \<lparr>total_new_task_virtual_tokens := Some 7\<rparr>) (taskname (two_tasks ! 1))) = Some (int 1)"
proof -
  have h1: "load_task_templates (example_model ''p-tuning'' [''intent''] two_tasks) two_tasks =
     Inr ((loaded_tables (example_model ''p-tuning'' [''intent''] two_tasks) two_tasks)
            \<lparr>total_new_task_virtual_tokens := Some 7\<rparr>)"
    by (simp add: load_task_templates_def check_new_tasks_def loaded_tables_def reset_tables_def
        example_model_def two_tasks_def example_task_def make_entry_def Let_def)
  have h2: "(1::nat) < length two_tasks"
    by (simp add: two_tasks_def)
  have h3: "\<forall>k. 1 < k \<and> k < length two_tasks \<longrightarrow> taskname (two_tasks ! k) \<noteq> taskname (two_tasks ! 1)"
    by (simp add: two_tasks_def)
  from load_task_templates_ids [OF h1 h2] h1 h2 h3 show ?thesis by blast
qed

text \<open>
  The claim as the spec words it, the entry under the \<open>i\<close>-th name has number \<open>i\<close> for
  every list, fails on a list that repeats a name: the later task overwrites the entry.
\<close>

theorem load_task_templates_ids_counterexample:
  "load_task_templates (example_model ''p-tuning'' [] repeated_tasks) repeated_tasks =
     Inr (loaded_tables (example_model ''p-tuning'' [] repeated_tasks) repeated_tasks) \<and>
   (0::nat) < length repeated_tasks \<and>
   map_option entry_task_id_num
     (task_templates (loaded_tables (example_model ''p-tuning'' [] repeated_tasks) repeated_tasks)
        (taskname (repeated_tasks ! 0))) = Some 1"
  by (simp add: load_task_templates_def check_new_tasks_def loaded_tables_def reset_tables_def
      example_model_def repeated_tasks_def example_task_def make_entry_def Let_def)

section \<open>The check of the new tasks\<close>

text \<open>
  C2, as the code has it. The names of \<open>new_tasks\<close> are looked up in the loaded table from
  left to right, the first one twice. A name that is not a key raises \<open>KeyError\<close> when it
  is reached; a name whose count differs from the first one's raises \<open>AssertionError\<close>
  with the message when it is reached; whichever comes first decides. When every name
  is a key with the count of the first, or \<open>new_tasks\<close> is empty, the method returns.
\<close>

theorem new_tasks_check:
  "(new_tasks self = [] \<longrightarrow>
      load_task_templates self templates = Inr (loaded_tables self templates)) \<and>
   (new_tasks self = first # others \<and>
    virtual_tokens_of (loaded_tables self templates) first = None \<longrightarrow>
      load_task_templates self templates = Inl (KeyError first)) \<and>
   (new_tasks self = first # others \<and>
    virtual_tokens_of (loaded_tables self templates) first = Some c \<and>
    others = pre @ name # rest \<and>
    (\<forall>u\<in>set pre. virtual_tokens_of (loaded_tables self templates) u = Some c) \<and>
    virtual_tokens_of (loaded_tables self templates) name = Some c' \<and> c' \<noteq> c \<longrightarrow>
      load_task_templates self templates = Inl (AssertionError mismatch_message)) \<and>
   (new_tasks self = first # others \<and>
    virtual_tokens_of (loaded_tables self templates) first = Some c \<and>
    others = pre @ name # rest \<and>
    (\<forall>u\<in>set pre. virtual_tokens_of (loaded_tables self templates) u = Some c) \<and>
    virtual_tokens_of (loaded_tables self templates) name = None \<longrightarrow>
      load_task_templates self templates = Inl (KeyError name)) \<and>
   (new_tasks self = first # others \<and>
    virtual_tokens_of (loaded_tables self templates) first = Some c \<and>
    (\<forall>u\<in>set others. virtual_tokens_of (loaded_tables self templates) u = Some c) \<longrightarrow>
      load_task_templates self templates =
        Inr ((loaded_tables self templates)\<lparr>total_new_task_virtual_tokens := Some c\<rparr>))"
proof -
  define L where "L = loaded_tables self templates"
  have nt: "new_tasks L = new_tasks self"
    by (simp add: L_def loaded_tables_def load_loop_new_tasks reset_tables_def)
  have empty: "check_new_tasks L = Inr L" if "new_tasks self = []"
    using that nt by (simp add: check_new_tasks_def)
  have missing: "check_new_tasks L = Inl (KeyError first)"
    if "new_tasks self = first # others" "virtual_tokens_of L first = None"
    using that nt by (simp add: check_new_tasks_def virtual_tokens_of_def)
  have unfold: "check_new_tasks L =
      (case all_tokens_match (task_templates L) c (first # others) of
         Inl err \<Rightarrow> Inl err
       | Inr ok \<Rightarrow> if ok then Inr (L\<lparr>total_new_task_virtual_tokens := Some c\<rparr>)
                  else Inl (AssertionError mismatch_message))"
    if "new_tasks self = first # others" "virtual_tokens_of L first = Some c"
    using that nt by (auto simp: check_new_tasks_def virtual_tokens_of_def Let_def)
  have differs: "check_new_tasks L = Inl (AssertionError mismatch_message)"
    if "new_tasks self = first # others" "virtual_tokens_of L first = Some c"
       "others = pre @ name # rest" "\<forall>u\<in>set pre. virtual_tokens_of L u = Some c"
       "virtual_tokens_of L name = Some c'" "c' \<noteq> c"
  proof -
    from that have "\<forall>u\<in>set (first # pre). map_option entry_total_virtual_tokens (task_templates L u) = Some c"
      by (simp add: virtual_tokens_of_def)
    moreover from that have "map_option entry_total_virtual_tokens (task_templates L name) = Some c'"
      by (simp add: virtual_tokens_of_def)
    ultimately have "all_tokens_match (task_templates L) c ((first # pre) @ name # rest) = Inr False"
      using \<open>c' \<noteq> c\<close> by (rule all_tokens_match_False)
    with that(3) have "all_tokens_match (task_templates L) c (first # others) = Inr False" by simp
    with unfold [OF that(1,2)] show ?thesis by simp
  qed
  have absent: "check_new_tasks L = Inl (KeyError name)"
    if "new_tasks self = first # others" "virtual_tokens_of L first = Some c"
       "others = pre @ name # rest" "\<forall>u\<in>set pre. virtual_tokens_of L u = Some c"
       "virtual_tokens_of L name = None"
  proof -
    from that have "\<forall>u\<in>set (first # pre). map_option entry_total_virtual_tokens (task_templates L u) = Some c"
      by (simp add: virtual_tokens_of_def)
    moreover from that have "task_templates L name = None"
      by (simp add: virtual_tokens_of_def)
    ultimately have "all_tokens_match (task_templates L) c ((first # pre) @ name # rest) = Inl (KeyError name)"
      by (rule all_tokens_match_KeyError)
    with that(3) have "all_tokens_match (task_templates L) c (first # others) = Inl (KeyError name)" by simp
    with unfold [OF that(1,2)] show ?thesis by simp
  qed
  have agree: "check_new_tasks L = Inr (L\<lparr>total_new_task_virtual_tokens := Some c\<rparr>)"
    if "new_tasks self = first # others" "virtual_tokens_of L first = Some c"
       "\<forall>u\<in>set others. virtual_tokens_of L u = Some c"
  proof -
    from that have "\<forall>u\<in>set (first # others). map_option entry_total_virtual_tokens (task_templates L u) = Some c"
      by (simp add: virtual_tokens_of_def)
    then have "all_tokens_match (task_templates L) c (first # others) = Inr True"
      by (rule all_tokens_match_True)
    with unfold [OF that(1,2)] show ?thesis by simp
  qed
  have c1: "new_tasks self = [] \<longrightarrow> check_new_tasks L = Inr L"
    by (intro impI, (elim conjE)?, rule empty)
  have c2: "new_tasks self = first # others \<and> virtual_tokens_of L first = None \<longrightarrow>
      check_new_tasks L = Inl (KeyError first)"
    by (intro impI, (elim conjE)?, rule missing)
  have c3: "new_tasks self = first # others \<and> virtual_tokens_of L first = Some c \<and>
      others = pre @ name # rest \<and> (\<forall>u\<in>set pre. virtual_tokens_of L u = Some c) \<and>
      virtual_tokens_of L name = Some c' \<and> c' \<noteq> c \<longrightarrow>
      check_new_tasks L = Inl (AssertionError mismatch_message)"
    by (intro impI, (elim conjE)?, rule differs)
  have c4: "new_tasks self = first # others \<and> virtual_tokens_of L first = Some c \<and>
      others = pre @ name # rest \<and> (\<forall>u\<in>set pre. virtual_tokens_of L u = Some c) \<and>
      virtual_tokens_of L name = None \<longrightarrow>
      check_new_tasks L = Inl (KeyError name)"
    by (intro impI, (elim conjE)?, rule absent)
  have c5: "new_tasks self = first # others \<and> virtual_tokens_of L first = Some c \<and>
      (\<forall>u\<in>set others. virtual_tokens_of L u = Some c) \<longrightarrow>
      check_new_tasks L = Inr (L\<lparr>total_new_task_virtual_tokens := Some c\<rparr>)"
    by (intro impI, (elim conjE)?, rule agree)
  from c1 c2 c3 c4 c5 show ?thesis
    unfolding load_task_templates_def L_def [symmetric] by (intro conjI)
qed

theorem new_tasks_check_witness:
  "new_tasks (example_model ''p-tuning'' [''sentiment'', ''intent''] two_tasks) = ''sentiment'' # [''intent''] \<and>
   virtual_tokens_of (loaded_tables (example_model ''p-tuning'' [''sentiment'', ''intent''] two_tasks) two_tasks)
     ''sentiment'' = Some 5 \<and>
   virtual_tokens_of (loaded_tables (example_model ''p-tuning'' [''sentiment'', ''intent''] two_tasks) two_tasks)
     ''intent'' = Some 7 \<and>
   load_task_templates (example_model ''p-tuning'' [''sentiment'', ''intent''] two_tasks) two_tasks =
     Inl (AssertionError mismatch_message) \<and>
   new_tasks (example_model ''p-tuning'' [''intent'', ''intent''] two_tasks) = ''intent'' # [''intent''] \<and>
   load_task_templates (example_model ''p-tuning'' [''intent'', ''intent''] two_tasks) two_tasks =
     Inr ((loaded_tables (example_model ''p-tuning'' [''intent'', ''intent''] two_tasks) two_tasks)
            \<lparr>total_new_task_virtual_tokens := Some 7\<rparr>) \<and>
   new_tasks (example_model ''p-tuning'' [] two_tasks) = [] \<and>
   load_task_templates (example_model ''p-tuning'' [] two_tasks) two_tasks =
     Inr (loaded_tables (example_model ''p-tuning'' [] two_tasks) two_tasks)"
proof -
  let ?M = "example_model ''p-tuning'' [''sentiment'', ''intent''] two_tasks"
  let ?N = "example_model ''p-tuning'' [''intent'', ''intent''] two_tasks"
  let ?E = "example_model ''p-tuning'' [] two_tasks"
  have m1: "new_tasks ?M = ''sentiment'' # [''intent'']"
    by (simp add: example_model_def)
  have m2: "virtual_tokens_of (loaded_tables ?M two_tasks) ''sentiment'' = Some 5"
    by (simp add: virtual_tokens_of_def loaded_tables_def reset_tables_def example_model_def
        two_tasks_def example_task_def make_entry_def)
  have m3: "virtual_tokens_of (loaded_tables ?M two_tasks) ''intent'' = Some 7"
    by (simp add: virtual_tokens_of_def loaded_tables_def reset_tables_def example_model_def
        two_tasks_def example_task_def make_entry_def)
  have m4: "[''intent''] = [] @ ''intent'' # []" by simp
  have m5: "\<forall>u\<in>set []. virtual_tokens_of (loaded_tables ?M two_tasks) u = Some 5" by simp
  have m6: "(7::int) \<noteq> 5" by simp
  have n1: "new_tasks ?N = ''intent'' # [''intent'']"
    by (simp add: example_model_def)
  have n2: "virtual_tokens_of (loaded_tables ?N two_tasks) ''intent'' = Some 7"
    by (simp add: virtual_tokens_of_def loaded_tables_def reset_tables_def example_model_def
        two_tasks_def example_task_def make_entry_def)
  then have n3: "\<forall>u\<in>set [''intent'']. virtual_tokens_of (loaded_tables ?N two_tasks) u = Some 7" by simp
  have e1: "new_tasks ?E = []"
    by (simp add: example_model_def)
  from new_tasks_check [where self = ?M and templates = two_tasks and first = "''sentiment''"
      and others = "[''intent'']" and c = 5 and pre = "[]" and name = "''intent''" and rest = "[]"
      and c' = 7]
    m1 m2 m3 m4 m5 m6
  have a: "load_task_templates ?M two_tasks = Inl (AssertionError mismatch_message)" by blast
  from new_tasks_check [where self = ?N and templates = two_tasks and first = "''intent''"
      and others = "[''intent'']" and c = 7] n1 n2 n3
  have b: "load_task_templates ?N two_tasks =
      Inr ((loaded_tables ?N two_tasks)\<lparr>total_new_task_virtual_tokens := Some 7\<rparr>)" by blast
  from new_tasks_check [where self = ?E and templates = two_tasks] e1
  have c: "load_task_templates ?E two_tasks = Inr (loaded_tables ?E two_tasks)" by blast
  from m1 m2 m3 a n1 b e1 c show ?thesis by blast
qed

text \<open>
  The claim as the spec words it, a count that differs from the first task's raises the
  assertion error, fails when a name that is no key stands before the name that
  differs: the lookup of that name raises \<open>KeyError\<close> first.
\<close>

theorem new_tasks_check_counterexample:
  "new_tasks (example_model ''p-tuning'' [''sentiment'', ''summarization'', ''intent''] two_tasks) =
     [''sentiment'', ''summarization'', ''intent''] \<and>
   virtual_tokens_of
     (loaded_tables (example_model ''p-tuning'' [''sentiment'', ''summarization'', ''intent''] two_tasks) two_tasks)
     ''sentiment'' = Some 5 \<and>
   virtual_tokens_of
     (loaded_tables (example_model ''p-tuning'' [''sentiment'', ''summarization'', ''intent''] two_tasks) two_tasks)
     ''intent'' = Some 7 \<and>
   load_task_templates (example_model ''p-tuning'' [''sentiment'', ''summarization'', ''intent''] two_tasks) two_tasks =
     Inl (KeyError ''summarization'') \<and>
   load_task_templates (example_model ''p-tuning'' [''sentiment'', ''summarization'', ''intent''] two_tasks) two_tasks \<noteq>
     Inl (AssertionError mismatch_message)"
  by (simp add: load_task_templates_def check_new_tasks_def virtual_tokens_of_def loaded_tables_def
      reset_tables_def example_model_def two_tasks_def example_task_def make_entry_def Let_def)


section \<open>Padding and loss mask\<close>

lemma length_build_loss_mask: "length (build_loss_mask self ids a) = length ids"
  by (cases a) (simp_all add: build_loss_mask_def length_range_py)

lemma nth_build_loss_mask:
  assumes "idx < length ids"
  shows "build_loss_mask self ids a ! idx =
           (if (case a of Some s \<Rightarrow> s \<le> int idx | None \<Rightarrow> ids ! idx \<notin> set (pseudo_token_ids self))
            then 1 else 0)"
proof (cases a)
  case None
  with assms show ?thesis by (simp add: build_loss_mask_def float_of_bool_def)
next
  case (Some s)
  from assms have "range_py (int (length ids)) ! idx = int idx"
    by (simp add: range_py_def)
  with assms Some show ?thesis
    by (simp add: build_loss_mask_def float_of_bool_def length_range_py)
qed

lemma pad_rows_eq:
  "pad_rows self batch_max zs =
     (map (\<lambda>(ids, a). ids @ replicate (nat (batch_max - int (length ids))) (pad_token_id self)) zs,
      map (\<lambda>(ids, a). build_loss_mask self ids a @ replicate (nat (batch_max - int (length ids))) 0) zs)"
  by (induction zs) (auto simp: Let_def)

lemma store_long_rows_None:
  "\<forall>r\<in>set rows. length r = n \<and> (\<forall>x\<in>set r. in_int64 x) \<Longrightarrow> store_long_rows n rows = None"
  by (induction rows) (auto simp: list_ex_iff)

lemma torch_tensor_long_uniform:
  assumes "\<forall>r\<in>set rows. length r = n \<and> (\<forall>x\<in>set r. in_int64 x)"
  shows "torch_tensor_long rows = Inr rows"
proof (cases rows)
  case Nil
  then show ?thesis by (simp add: torch_tensor_long_def)
next
  case (Cons r rest)
  with assms have "length (hd rows) = n" by simp
  with store_long_rows_None [OF assms] show ?thesis by (simp add: torch_tensor_long_def)
qed

lemma torch_stack_uniform:
  "tensors \<noteq> [] \<Longrightarrow> \<forall>t\<in>set tensors. length t = n \<Longrightarrow> torch_stack tensors = Inr tensors"
  by (cases tensors) (auto simp: torch_stack_def list_all_iff)

text \<open>
  C8, as the code has it. For a batch of at least one row, with as many answer starts as
  rows, no row longer than \<open>batch_max\<close>, and token ids that a \<open>torch.long\<close> tensor holds
  (those of the rows, and \<open>pad_token_id\<close> when some row is shorter than \<open>batch_max\<close>),
  the method returns two tensors with one row of length \<open>batch_max\<close> for each input row. A padded row keeps the tokens in place and
  ends in \<open>pad_token_id\<close>; the mask is \<open>0\<close> on the padding, and on an original position it
  is \<open>1\<close> exactly when the answer start is present and not after the position, or absent
  and the token is no pseudo token.
\<close>

theorem pad_batch_and_build_loss_mask_rows:
  assumes "input_ids \<noteq> []"
    and "length answer_starts = length input_ids"
    and "\<forall>ids\<in>set input_ids. int (length ids) \<le> batch_max"
    and "\<forall>ids\<in>set input_ids. \<forall>token_id\<in>set ids. in_int64 token_id"
    and "in_int64 (pad_token_id self) \<or> (\<forall>ids\<in>set input_ids. int (length ids) = batch_max)"
  shows "\<exists>padded masks.
           pad_batch_and_build_loss_mask self input_ids batch_max answer_starts = Inr (padded, masks) \<and>
           length padded = length input_ids \<and> length masks = length input_ids \<and>
           (\<forall>r < length input_ids.
              length (padded ! r) = nat batch_max \<and> length (masks ! r) = nat batch_max \<and>
              (\<forall>idx < length (input_ids ! r).
                 padded ! r ! idx = input_ids ! r ! idx \<and>
                 masks ! r ! idx =
                   (if (case answer_starts ! r of
                          Some a \<Rightarrow> a \<le> int idx
                        | None \<Rightarrow> input_ids ! r ! idx \<notin> set (pseudo_token_ids self))
                    then 1 else 0)) \<and>
              (\<forall>idx. length (input_ids ! r) \<le> idx \<and> idx < nat batch_max \<longrightarrow>
                 padded ! r ! idx = pad_token_id self \<and> masks ! r ! idx = 0))"
proof -
  define pad where "pad ids = replicate (nat (batch_max - int (length ids))) (pad_token_id self)" for ids :: "int list"
  define zero where "zero ids = replicate (nat (batch_max - int (length ids))) (0::real)" for ids :: "int list"
  define padded where "padded = map (\<lambda>(ids, a). ids @ pad ids) (zip input_ids answer_starts)"
  define masks where "masks = map (\<lambda>(ids, a). build_loss_mask self ids a @ zero ids) (zip input_ids answer_starts)"
  have rows: "pad_rows self batch_max (zip input_ids answer_starts) = (padded, masks)"
    by (simp add: pad_rows_eq padded_def masks_def pad_def zero_def)
  have lp: "length padded = length input_ids" and lm: "length masks = length input_ids"
    using assms(2) by (simp_all add: padded_def masks_def)
  have prow: "padded ! r = input_ids ! r @ pad (input_ids ! r)" if "r < length input_ids" for r
    using that assms(2) by (simp add: padded_def)
  have mrow: "masks ! r = build_loss_mask self (input_ids ! r) (answer_starts ! r) @ zero (input_ids ! r)"
    if "r < length input_ids" for r
    using that assms(2) by (simp add: masks_def)
  have fits: "int (length (input_ids ! r)) \<le> batch_max" if "r < length input_ids" for r
    using that assms(3) by simp
  have plen: "length (padded ! r) = nat batch_max" if "r < length input_ids" for r
    using fits [OF that] by (simp add: prow [OF that] pad_def)
  have mlen: "length (masks ! r) = nat batch_max" if "r < length input_ids" for r
    using fits [OF that] by (simp add: mrow [OF that] zero_def length_build_loss_mask)
  have prange: "\<forall>x\<in>set (padded ! r). in_int64 x" if "r < length input_ids" for r
  proof -
    from that have row: "input_ids ! r \<in> set input_ids" by simp
    with assms(4) have ids: "\<forall>x\<in>set (input_ids ! r). in_int64 x" by blast
    from assms(5) have "\<forall>x\<in>set (pad (input_ids ! r)). in_int64 x"
    proof
      assume "in_int64 (pad_token_id self)"
      then show ?thesis by (simp add: pad_def)
    next
      assume "\<forall>ids\<in>set input_ids. int (length ids) = batch_max"
      with row have "int (length (input_ids ! r)) = batch_max" by blast
      then show ?thesis by (simp add: pad_def)
    qed
    with ids show ?thesis by (auto simp: prow [OF that])
  qed
  have "\<forall>p\<in>set padded. length p = nat batch_max \<and> (\<forall>x\<in>set p. in_int64 x)"
  proof
    fix p
    assume "p \<in> set padded"
    then obtain r where r: "r < length padded" and p: "p = padded ! r"
      by (auto simp: in_set_conv_nth)
    from r lp have "r < length input_ids" by simp
    from plen [OF this] prange [OF this] p
    show "length p = nat batch_max \<and> (\<forall>x\<in>set p. in_int64 x)" by simp
  qed
  then have tensor: "torch_tensor_long padded = Inr padded"
    by (rule torch_tensor_long_uniform)
  have "masks \<noteq> []" using assms(1) lm by auto
  moreover have "\<forall>m\<in>set masks. length m = nat batch_max"
    using mlen lm by (auto simp: in_set_conv_nth)
  ultimately have stack: "torch_stack masks = Inr masks"
    by (rule torch_stack_uniform)
  have result: "pad_batch_and_build_loss_mask self input_ids batch_max answer_starts = Inr (padded, masks)"
    by (simp add: pad_batch_and_build_loss_mask_def rows tensor stack)
  have orig: "padded ! r ! idx = input_ids ! r ! idx \<and>
              masks ! r ! idx =
                (if (case answer_starts ! r of
                       Some a \<Rightarrow> a \<le> int idx
                     | None \<Rightarrow> input_ids ! r ! idx \<notin> set (pseudo_token_ids self))
                 then 1 else 0)"
    if "r < length input_ids" "idx < length (input_ids ! r)" for r idx
    using that(2)
    by (simp add: prow [OF that(1)] mrow [OF that(1)] nth_append length_build_loss_mask
        nth_build_loss_mask)
  have tail: "padded ! r ! idx = pad_token_id self \<and> masks ! r ! idx = 0"
    if "r < length input_ids" "length (input_ids ! r) \<le> idx" "idx < nat batch_max" for r idx
  proof -
    from that(2,3) have "idx - length (input_ids ! r) < nat (batch_max - int (length (input_ids ! r)))"
      by linarith
    with that(2) show ?thesis
      by (simp add: prow [OF that(1)] mrow [OF that(1)] nth_append length_build_loss_mask
          pad_def zero_def)
  qed
  from result lp lm plen mlen orig tail show ?thesis by blast
qed

theorem pad_batch_and_build_loss_mask_rows_witness:
  "[[1, 7, 3], [4::int]] \<noteq> [] \<and>
   length [None, Some (0::int)] = length [[1, 7, 3], [4::int]] \<and>
   int (length [1, 7, 3::int]) \<le> 4 \<and> int (length [4::int]) \<le> 4 \<and>
   in_int64 1 \<and> in_int64 7 \<and> in_int64 3 \<and> in_int64 4 \<and> in_int64 (pad_token_id masking_model) \<and>
   pad_batch_and_build_loss_mask masking_model [[1, 7, 3], [4]] 4 [None, Some 0] =
     Inr ([[1, 7, 3, 0], [4, 0, 0, 0]], [[1, 0, 1, 0], [1, 0, 0, 0]]) \<and>
   (\<exists>padded masks.
      pad_batch_and_build_loss_mask masking_model [[1, 7, 3], [4]] 4 [None, Some 0] = Inr (padded, masks) \<and>
      length (padded ! 1) = nat 4 \<and> length (masks ! 1) = nat 4)"
proof -
  have h1: "[[1, 7, 3], [4::int]] \<noteq> []" by simp
  have h2: "length [None, Some (0::int)] = length [[1, 7, 3], [4::int]]" by simp
  have h3: "\<forall>ids\<in>set [[1, 7, 3], [4::int]]. int (length ids) \<le> 4" by simp
  have h4: "\<forall>ids\<in>set [[1, 7, 3], [4::int]]. \<forall>token_id\<in>set ids. in_int64 token_id"
    by (simp add: in_int64_def)
  have h5: "in_int64 (pad_token_id masking_model) \<or>
      (\<forall>ids\<in>set [[1, 7, 3], [4::int]]. int (length ids) = 4)"
    by (simp add: in_int64_def masking_model_def example_model_def)
  have h6: "in_int64 1 \<and> in_int64 7 \<and> in_int64 3 \<and> in_int64 4 \<and> in_int64 (pad_token_id masking_model)"
    by (simp add: in_int64_def masking_model_def example_model_def)
  have v: "pad_batch_and_build_loss_mask masking_model [[1, 7, 3], [4]] 4 [None, Some 0] =
      Inr ([[1, 7, 3, 0], [4, 0, 0, 0]], [[1, 0, 1, 0], [1, 0, 0, 0]])"
    by (simp add: pad_batch_and_build_loss_mask_def build_loss_mask_def float_of_bool_def
        range_py_def torch_tensor_long_def torch_stack_def masking_model_def example_model_def
        in_int64_def Let_def numeral_eq_Suc)
  from pad_batch_and_build_loss_mask_rows [OF h1 h2 h3 h4 h5]
  obtain padded masks where
    r: "pad_batch_and_build_loss_mask masking_model [[1, 7, 3], [4]] 4 [None, Some 0] = Inr (padded, masks)"
    and l: "\<forall>r < length [[1, 7, 3], [4::int]]. length (padded ! r) = nat 4 \<and> length (masks ! r) = nat 4"
    by blast
  from l have "length (padded ! 1) = nat 4 \<and> length (masks ! 1) = nat 4" by simp
  moreover have "int (length [1, 7, 3::int]) \<le> 4 \<and> int (length [4::int]) \<le> 4" by simp
  ultimately show ?thesis using r h1 h2 h6 v by blast
qed

text \<open>
  The claim as worded, for every list of rows, fails on the empty batch: no row is
  appended to either list, and \<open>torch.stack\<close> of no tensor raises.
\<close>

theorem pad_batch_and_build_loss_mask_rows_counterexample:
  "pad_batch_and_build_loss_mask masking_model [] 4 [] =
     Inl (RuntimeError ''stack expects a non-empty TensorList'')"
  by (simp add: pad_batch_and_build_loss_mask_def torch_tensor_long_def torch_stack_def)

text \<open>A token id beyond the 64-bit range is refused by \<open>torch.tensor\<close> on line 350.\<close>

lemma pad_batch_and_build_loss_mask_overflow:
  "pad_batch_and_build_loss_mask masking_model [[9223372036854775808]] 1 [None] =
     Inl (RuntimeError ''Overflow when unpacking long'')"
  by (simp add: pad_batch_and_build_loss_mask_def torch_tensor_long_def build_loss_mask_def
      in_int64_def Let_def)


section \<open>The constructor\<close>

lemma init_Inr:
  assumes "init env cfg0 self = Inr self'"
  shows "\<exists>s1 s2 s3.
           init_style env cfg0 (init_tasks self) = Inr s1 \<and>
           init_frozen_model env cfg0 s1 = Inr s2 \<and>
           load_task_templates s2 (cfg_task_templates (cfg s2)) = Inr s3 \<and>
           init_source cfg0 (init_pseudo_tokens env s3) = Inr self'"
  using assms by (auto simp: init_def split: sum.splits)

lemma init_style_Inr:
  "init_style env cfg0 s = Inr s1 \<Longrightarrow>
   \<exists>style. style_of_value env (cfg_virtual_prompt_style cfg0) = Some style \<and>
           s1 = s\<lparr>virtual_prompt_style := style\<rparr>"
  by (auto simp: init_style_def split: option.splits)

lemma init_frozen_model_Inr:
  "init_frozen_model env cfg0 s1 = Inr s2 \<Longrightarrow> \<exists>x. s2 = s1\<lparr>frozen_model := x\<rparr>"
proof -
  assume a: "init_frozen_model env cfg0 s1 = Inr s2"
  have "s2 = s1 \<or> (\<exists>m. s2 = s1\<lparr>frozen_model := Some m\<rparr>)"
    using a by (auto simp: init_frozen_model_def split: sum.splits if_splits)
  moreover have "s1 = s1\<lparr>frozen_model := frozen_model s1\<rparr>" by simp
  ultimately show ?thesis by metis
qed

lemma init_frozen_model_not_ValueError:
  "init_frozen_model env cfg0 s1 \<noteq> Inl (ValueError info)"
  by (auto simp: init_frozen_model_def split: sum.splits if_splits)

lemma check_new_tasks_not_ValueError: "check_new_tasks s \<noteq> Inl (ValueError info)"
proof -
  have "all_tokens_match tt c ns \<noteq> Inl (ValueError info)" for tt c ns
    by (induction ns) (auto split: option.splits)
  then show ?thesis
    by (auto simp: check_new_tasks_def Let_def split: option.splits sum.splits)
qed

lemma init_source_Inr:
  "init_source cfg0 s = Inr self' \<Longrightarrow>
   self' = s\<lparr>virtual_prompt_source :=
               (case virtual_prompt_style s of
                  PROMPT_TUNING \<Rightarrow> PROMPT_TABLE
                | INFERENCE \<Rightarrow> PROMPT_TABLE
                | P_TUNING \<Rightarrow> PROMPT_ENCODER
                | VirtualPromptStyle.NO_PROMPT \<Rightarrow> VirtualPromptSource.NO_PROMPT)\<rparr>"
  by (cases "virtual_prompt_style s") (auto simp: init_source_def)

lemma init_source_total: "\<exists>self'. init_source cfg0 s = Inr self'"
  by (cases "virtual_prompt_style s") (auto simp: init_source_def)

lemma init_pseudo_tokens_style:
  "virtual_prompt_style (init_pseudo_tokens env s) = virtual_prompt_style s"
  by (simp add: init_pseudo_tokens_def Let_def)

lemma init_pseudo_tokens_none:
  assumes "max_virtual_tokens s = 0"
  shows "max_virtual_tokens (init_pseudo_tokens env s) = 0 \<and>
         pseudo_tokens (init_pseudo_tokens env s) = [] \<and>
         pseudo_token_ids (init_pseudo_tokens env s) = [] \<and>
         pseudo_token_ids_start (init_pseudo_tokens env s) = None"
  using assms
  by (simp add: init_pseudo_tokens_def Let_def get_pseudo_tokens_def range_py_def tokens_to_ids_def)

lemma loaded_tables_max:
  assumes "\<forall>t\<in>set templates. total_virtual_tokens t \<le> 0"
  shows "max_virtual_tokens (loaded_tables s templates) = 0"
proof -
  have "max_virtual_tokens (load_loop templates 0 (reset_tables s)) = max_virtual_tokens (reset_tables s)"
    by (rule load_loop_max) (use assms in \<open>simp add: reset_tables_def\<close>)
  then show ?thesis by (simp add: loaded_tables_def reset_tables_def)
qed

lemma init_returns:
  assumes style: "style_of_value env (cfg_virtual_prompt_style cfg0) = Some style"
    and config: "restore_from env (cfg_language_model_path cfg0) None = Inr fc"
    and frozen: "restore_from env (cfg_language_model_path cfg0) (Some fc) = Inr fm"
    and new: "cfg_new_tasks (cfg self) = None \<or> cfg_new_tasks (cfg self) = Some []"
  shows "\<exists>self'. init env cfg0 self = Inr self'"
proof -
  define s1 where "s1 = (init_tasks self)\<lparr>virtual_prompt_style := style\<rparr>"
  have s1: "init_style env cfg0 (init_tasks self) = Inr s1"
    using style by (simp add: init_style_def s1_def)
  from config frozen have "\<exists>s2. init_frozen_model env cfg0 s1 = Inr s2"
    by (simp add: init_frozen_model_def)
  then obtain s2 where s2: "init_frozen_model env cfg0 s1 = Inr s2" ..
  from init_frozen_model_Inr [OF s2] new
  have "new_tasks s2 = []" by (auto simp: init_tasks_def s1_def)
  then have "new_tasks (loaded_tables s2 (cfg_task_templates (cfg s2))) = []"
    by (simp add: loaded_tables_def load_loop_new_tasks reset_tables_def)
  then have "load_task_templates s2 (cfg_task_templates (cfg s2)) =
      Inr (loaded_tables s2 (cfg_task_templates (cfg s2)))"
    by (simp add: load_task_templates_def check_new_tasks_def)
  with s1 s2 init_source_total show ?thesis
    by (simp add: init_def)
qed

text \<open>
  C10. When the config list of task templates is empty, or every task in it declares
  \<open>total_virtual_tokens = 0\<close>, the loop leaves \<open>max_virtual_tokens\<close> at \<open>0\<close>, and an object
  that the constructor returns has no pseudo token, no pseudo token id, and \<open>None\<close> as
  \<open>pseudo_token_ids_start\<close>. The constructor does return when the style is a member of
  the enum, the frozen model is restored and the config names no new task.
\<close>

theorem init_no_virtual_tokens:
  assumes "cfg_task_templates (cfg self) = [] \<or>
           (\<forall>t\<in>set (cfg_task_templates (cfg self)). total_virtual_tokens t = 0)"
  shows "max_virtual_tokens (loaded_tables s (cfg_task_templates (cfg self))) = 0 \<and>
         (\<forall>self'. init env cfg0 self = Inr self' \<longrightarrow>
            max_virtual_tokens self' = 0 \<and> pseudo_tokens self' = [] \<and>
            pseudo_token_ids self' = [] \<and> pseudo_token_ids_start self' = None) \<and>
         (style_of_value env (cfg_virtual_prompt_style cfg0) = Some style \<and>
          restore_from env (cfg_language_model_path cfg0) None = Inr fc \<and>
          restore_from env (cfg_language_model_path cfg0) (Some fc) = Inr fm \<and>
          (cfg_new_tasks (cfg self) = None \<or> cfg_new_tasks (cfg self) = Some []) \<longrightarrow>
            (\<exists>self'. init env cfg0 self = Inr self'))"
proof -
  from assms have le: "\<forall>t\<in>set (cfg_task_templates (cfg self)). total_virtual_tokens t \<le> 0"
    by auto
  then have a: "max_virtual_tokens (loaded_tables s (cfg_task_templates (cfg self))) = 0"
    by (rule loaded_tables_max)
  have b: "max_virtual_tokens self' = 0 \<and> pseudo_tokens self' = [] \<and>
           pseudo_token_ids self' = [] \<and> pseudo_token_ids_start self' = None"
    if "init env cfg0 self = Inr self'" for self'
  proof -
    from init_Inr [OF that] obtain s1 s2 s3 where
      s1: "init_style env cfg0 (init_tasks self) = Inr s1" and
      s2: "init_frozen_model env cfg0 s1 = Inr s2" and
      s3: "load_task_templates s2 (cfg_task_templates (cfg s2)) = Inr s3" and
      s4: "init_source cfg0 (init_pseudo_tokens env s3) = Inr self'"
      by blast
    from init_style_Inr [OF s1] init_frozen_model_Inr [OF s2]
    have "cfg s2 = cfg self" by (auto simp: init_tasks_def)
    with s3 have "load_task_templates s2 (cfg_task_templates (cfg self)) = Inr s3" by simp
    then obtain x where "s3 = (loaded_tables s2 (cfg_task_templates (cfg self)))\<lparr>total_new_task_virtual_tokens := x\<rparr>"
      unfolding load_task_templates_def by (blast dest: check_new_tasks_Inr)
    with loaded_tables_max [OF le, of s2] have "max_virtual_tokens s3 = 0" by simp
    from init_pseudo_tokens_none [OF this, of env]
    have p: "max_virtual_tokens (init_pseudo_tokens env s3) = 0"
      "pseudo_tokens (init_pseudo_tokens env s3) = []"
      "pseudo_token_ids (init_pseudo_tokens env s3) = []"
      "pseudo_token_ids_start (init_pseudo_tokens env s3) = None"
      by simp_all
    from init_source_Inr [OF s4] obtain v where "self' = (init_pseudo_tokens env s3)\<lparr>virtual_prompt_source := v\<rparr>"
      by blast
    with p show ?thesis by simp
  qed
  have c: "style_of_value env (cfg_virtual_prompt_style cfg0) = Some style \<and>
      restore_from env (cfg_language_model_path cfg0) None = Inr fc \<and>
      restore_from env (cfg_language_model_path cfg0) (Some fc) = Inr fm \<and>
      (cfg_new_tasks (cfg self) = None \<or> cfg_new_tasks (cfg self) = Some []) \<longrightarrow>
      (\<exists>self'. init env cfg0 self = Inr self')"
    by (intro impI, elim conjE, rule init_returns)
  from a b c show ?thesis by blast
qed

theorem init_no_virtual_tokens_witness:
  "(cfg_task_templates (cfg (example_model ''p-tuning'' [] zero_tasks)) = [] \<or>
    (\<forall>t\<in>set (cfg_task_templates (cfg (example_model ''p-tuning'' [] zero_tasks))).
       total_virtual_tokens t = 0)) \<and>
   (\<exists>self'. init example_env (example_cfg ''p-tuning'' [] zero_tasks)
              (example_model ''p-tuning'' [] zero_tasks) = Inr self' \<and>
            max_virtual_tokens self' = 0 \<and> pseudo_tokens self' = [] \<and>
            pseudo_token_ids self' = [] \<and> pseudo_token_ids_start self' = None)"
proof -
  let ?M = "example_model ''p-tuning'' [] zero_tasks"
  let ?C = "example_cfg ''p-tuning'' [] zero_tasks"
  have h: "cfg_task_templates (cfg ?M) = [] \<or>
      (\<forall>t\<in>set (cfg_task_templates (cfg ?M)). total_virtual_tokens t = 0)"
    by (simp add: example_model_def example_cfg_def zero_tasks_def example_task_def)
  have style: "style_of_value example_env (cfg_virtual_prompt_style ?C) = Some P_TUNING"
    by (simp add: example_env_def example_cfg_def)
  have config: "restore_from example_env (cfg_language_model_path ?C) None = Inr ()"
    by (simp add: example_env_def)
  have frozen: "restore_from example_env (cfg_language_model_path ?C) (Some ()) = Inr ()"
    by (simp add: example_env_def)
  have new: "cfg_new_tasks (cfg ?M) = None \<or> cfg_new_tasks (cfg ?M) = Some []"
    by (simp add: example_model_def example_cfg_def)
  note inst = init_no_virtual_tokens [OF h, where env = example_env and ?cfg0.0 = ?C
      and style = P_TUNING and fc = "()" and fm = "()" and s = ?M]
  from inst style config frozen new obtain self' where r: "init example_env ?C ?M = Inr self'"
    by blast
  with inst have "max_virtual_tokens self' = 0 \<and> pseudo_tokens self' = [] \<and>
      pseudo_token_ids self' = [] \<and> pseudo_token_ids_start self' = None"
    by blast
  with r h show ?thesis by blast
qed

section \<open>The virtual prompt style\<close>

lemma load_loop_style: "virtual_prompt_style (load_loop ts n s) = virtual_prompt_style s"
  by (induction ts arbitrary: n s) simp_all

text \<open>
  C5. A config value that is the value of no member of \<open>VirtualPromptStyle\<close> makes the
  constructor raise \<open>ValueError\<close>: the call of the enum on line 53 raises it, with the
  enum's own message that names the value. For the value of a member the constructor
  raises no \<open>ValueError\<close>, and an object it returns has the member as its style and the
  source that belongs to it: \<open>PROMPT_TABLE\<close> for \<open>PROMPT_TUNING\<close> and \<open>INFERENCE\<close>,
  \<open>PROMPT_ENCODER\<close> for \<open>P_TUNING\<close>, \<open>NO_PROMPT\<close> for \<open>NO_PROMPT\<close>.
\<close>

theorem init_virtual_prompt_style:
  "(style_of_value env (cfg_virtual_prompt_style cfg0) = None \<longrightarrow>
      init env cfg0 self = Inl (ValueError (NotAValidEnumValue (cfg_virtual_prompt_style cfg0)))) \<and>
   (style_of_value env (cfg_virtual_prompt_style cfg0) = Some style \<longrightarrow>
      (\<forall>info. init env cfg0 self \<noteq> Inl (ValueError info)) \<and>
      (\<forall>self'. init env cfg0 self = Inr self' \<longrightarrow>
         virtual_prompt_style self' = style \<and>
         virtual_prompt_source self' =
           (case style of
              PROMPT_TUNING \<Rightarrow> PROMPT_TABLE
            | INFERENCE \<Rightarrow> PROMPT_TABLE
            | P_TUNING \<Rightarrow> PROMPT_ENCODER
            | VirtualPromptStyle.NO_PROMPT \<Rightarrow> VirtualPromptSource.NO_PROMPT)))"
proof -
  have none: "init env cfg0 self = Inl (ValueError (NotAValidEnumValue (cfg_virtual_prompt_style cfg0)))"
    if "style_of_value env (cfg_virtual_prompt_style cfg0) = None"
    using that by (simp add: init_def init_style_def)
  have no_error: "init env cfg0 self \<noteq> Inl (ValueError info)"
    if some: "style_of_value env (cfg_virtual_prompt_style cfg0) = Some style" for info
  proof
    assume raised: "init env cfg0 self = Inl (ValueError info)"
    define s1 where "s1 = (init_tasks self)\<lparr>virtual_prompt_style := style\<rparr>"
    have s1: "init_style env cfg0 (init_tasks self) = Inr s1"
      using some by (simp add: init_style_def s1_def)
    show False
    proof (cases "init_frozen_model env cfg0 s1")
      case (Inl e)
      with raised s1 init_frozen_model_not_ValueError [of env cfg0 s1 info]
      show False by (simp add: init_def)
    next
      case s2: (Inr s2)
      show False
      proof (cases "load_task_templates s2 (cfg_task_templates (cfg s2))")
        case (Inl e)
        with raised s1 s2 check_new_tasks_not_ValueError [of "loaded_tables s2 (cfg_task_templates (cfg s2))" info]
        show False by (simp add: init_def load_task_templates_def)
      next
        case (Inr s3)
        with raised s1 s2 init_source_total [of cfg0 "init_pseudo_tokens env s3"]
        show False by (auto simp: init_def)
      qed
    qed
  qed
  have returned: "virtual_prompt_style self' = style \<and>
      virtual_prompt_source self' =
        (case style of
           PROMPT_TUNING \<Rightarrow> PROMPT_TABLE
         | INFERENCE \<Rightarrow> PROMPT_TABLE
         | P_TUNING \<Rightarrow> PROMPT_ENCODER
         | VirtualPromptStyle.NO_PROMPT \<Rightarrow> VirtualPromptSource.NO_PROMPT)"
    if some: "style_of_value env (cfg_virtual_prompt_style cfg0) = Some style"
      and ret: "init env cfg0 self = Inr self'" for self'
  proof -
    from init_Inr [OF ret] obtain s1 s2 s3 where
      s1: "init_style env cfg0 (init_tasks self) = Inr s1" and
      s2: "init_frozen_model env cfg0 s1 = Inr s2" and
      s3: "load_task_templates s2 (cfg_task_templates (cfg s2)) = Inr s3" and
      s4: "init_source cfg0 (init_pseudo_tokens env s3) = Inr self'"
      by blast
    from init_style_Inr [OF s1] some have "virtual_prompt_style s1 = style" by auto
    with init_frozen_model_Inr [OF s2] have "virtual_prompt_style s2 = style" by auto
    moreover from s3 obtain x where
      "s3 = (loaded_tables s2 (cfg_task_templates (cfg s2)))\<lparr>total_new_task_virtual_tokens := x\<rparr>"
      unfolding load_task_templates_def by (blast dest: check_new_tasks_Inr)
    ultimately have "virtual_prompt_style s3 = style"
      by (simp add: loaded_tables_def load_loop_style reset_tables_def)
    then have "virtual_prompt_style (init_pseudo_tokens env s3) = style"
      by (simp add: init_pseudo_tokens_style)
    with init_source_Inr [OF s4] show ?thesis by simp
  qed
  from none no_error returned show ?thesis by blast
qed

theorem init_virtual_prompt_style_witness:
  "style_of_value example_env (cfg_virtual_prompt_style (example_cfg ''lora'' [] two_tasks)) = None \<and>
   init example_env (example_cfg ''lora'' [] two_tasks) (example_model ''lora'' [] two_tasks) =
     Inl (ValueError (NotAValidEnumValue ''lora'')) \<and>
   style_of_value example_env (cfg_virtual_prompt_style (example_cfg ''p-tuning'' [] two_tasks)) =
     Some P_TUNING \<and>
   (\<exists>self'. init example_env (example_cfg ''p-tuning'' [] two_tasks)
              (example_model ''p-tuning'' [] two_tasks) = Inr self' \<and>
            virtual_prompt_style self' = P_TUNING \<and>
            virtual_prompt_source self' = PROMPT_ENCODER)"
proof -
  let ?B = "example_cfg ''lora'' [] two_tasks"
  let ?C = "example_cfg ''p-tuning'' [] two_tasks"
  let ?M = "example_model ''p-tuning'' [] two_tasks"
  have bad: "style_of_value example_env (cfg_virtual_prompt_style ?B) = None"
    by (simp add: example_env_def example_cfg_def)
  have v: "cfg_virtual_prompt_style ?B = ''lora''"
    by (simp add: example_cfg_def)
  from init_virtual_prompt_style [where env = example_env and ?cfg0.0 = ?B
      and self = "example_model ''lora'' [] two_tasks"] bad v
  have a: "init example_env ?B (example_model ''lora'' [] two_tasks) =
      Inl (ValueError (NotAValidEnumValue ''lora''))"
    by simp
  have style: "style_of_value example_env (cfg_virtual_prompt_style ?C) = Some P_TUNING"
    by (simp add: example_env_def example_cfg_def)
  have config: "restore_from example_env (cfg_language_model_path ?C) None = Inr ()"
    by (simp add: example_env_def)
  have frozen: "restore_from example_env (cfg_language_model_path ?C) (Some ()) = Inr ()"
    by (simp add: example_env_def)
  have new: "cfg_new_tasks (cfg ?M) = None \<or> cfg_new_tasks (cfg ?M) = Some []"
    by (simp add: example_model_def example_cfg_def)
  from init_returns [OF style config frozen new] obtain self' where
    r: "init example_env ?C ?M = Inr self'" by blast
  from init_virtual_prompt_style [where env = example_env and ?cfg0.0 = ?C and self = ?M
      and style = P_TUNING] style r
  have "virtual_prompt_style self' = P_TUNING \<and> virtual_prompt_source self' = PROMPT_ENCODER"
    by simp
  with bad a style r show ?thesis by blast
qed

section \<open>The guard for \<open>k2\<close>\<close>

lemma split_lines_nonempty: "split_lines s \<noteq> []"
  by (induction s) (auto split: list.splits)

lemma split_lines_prefix:
  "CHR 0x0A \<notin> set a \<Longrightarrow> split_lines (a @ b) = (a @ hd (split_lines b)) # tl (split_lines b)"
proof (induction a)
  case Nil
  then show ?case using split_lines_nonempty [of b] by simp
next
  case (Cons c a)
  then show ?case by auto
qed

lemma split_lines_line:
  "CHR 0x0A \<notin> set a \<Longrightarrow> split_lines (a @ CHR 0x0A # b) = a # split_lines b"
  by (simp add: split_lines_prefix)

lemma split_lines_last: "CHR 0x0A \<notin> set a \<Longrightarrow> split_lines a = [a]"
  using split_lines_prefix [of a "[]"] by simp

lemma join_split: "join_lines (split_lines s) = s"
proof (induction s)
  case Nil
  show ?case by simp
next
  case (Cons c s)
  obtain l ls where ls: "split_lines s = l # ls"
    using split_lines_nonempty [of s] by (cases "split_lines s") auto
  with Cons show ?case by (cases ls) auto
qed

lemma takeWhile_indent: "\<forall>x\<in>set sp. P x \<Longrightarrow> \<not> P c \<Longrightarrow> takeWhile P (sp @ c # r) = sp"
  by (induction sp) auto

lemma dropWhile_indent: "\<forall>x\<in>set sp. P x \<Longrightarrow> \<not> P c \<Longrightarrow> dropWhile P (sp @ c # r) = c # r"
  by (induction sp) auto

lemma dedent_version_report:
  assumes "CHR 0x0A \<notin> set minimum" and "CHR 0x0A \<notin> set installed"
  shows "dedent (version_report minimum installed) =
           CHR 0x0A # ''Minimum required k2 version: '' @ minimum @ '';'' @
           CHR 0x0A # ''Installed k2 version: '' @ installed @ [CHR 0x0A]"
proof -
  define sp where "sp = replicate 12 CHR '' ''"
  define t1 where "t1 = ''Minimum required k2 version: '' @ minimum @ '';''"
  define t2 where "t2 = ''Installed k2 version: '' @ installed"
  have rep: "version_report minimum installed =
      [] @ CHR 0x0A # (sp @ t1) @ CHR 0x0A # (sp @ t2) @ CHR 0x0A # sp"
    by (simp add: version_report_def t1_def t2_def sp_def)
  have n0: "CHR 0x0A \<notin> set sp" by (simp add: sp_def)
  have n1: "CHR 0x0A \<notin> set (sp @ t1)" using assms n0 by (simp add: t1_def)
  have n2: "CHR 0x0A \<notin> set (sp @ t2)" using assms n0 by (simp add: t2_def)
  have "split_lines (CHR 0x0A # sp) = [[], sp]"
    using split_lines_last [OF n0] by simp
  then have "split_lines ((sp @ t2) @ CHR 0x0A # sp) = [sp @ t2, sp]"
    by (simp only: split_lines_line [OF n2])  simp
  then have "split_lines ((sp @ t1) @ CHR 0x0A # (sp @ t2) @ CHR 0x0A # sp) = [sp @ t1, sp @ t2, sp]"
    by (simp only: split_lines_line [OF n1])
  then have lines: "split_lines (version_report minimum installed) = [[], sp @ t1, sp @ t2, sp]"
    by (simp add: rep)
  have spb: "\<forall>c\<in>set sp. blank c" "sp \<noteq> []" "length sp = 12"
    by (simp_all add: sp_def blank_def)
  obtain r1 where t1: "t1 = CHR ''M'' # r1" by (simp add: t1_def)
  obtain r2 where t2: "t2 = CHR ''I'' # r2" by (simp add: t2_def)
  have nb: "\<not> blank (CHR ''M'')" "\<not> blank (CHR ''I'')" by (simp_all add: blank_def)
  have tw: "takeWhile blank (sp @ t1) = sp" "takeWhile blank (sp @ t2) = sp"
    unfolding t1 t2 by (rule takeWhile_indent [OF spb(1)], rule nb)+
  have dw: "dropWhile blank (sp @ t1) = t1" "dropWhile blank (sp @ t2) = t2"
    unfolding t1 t2 by (rule dropWhile_indent [OF spb(1)], rule nb)+
  have w1: "whitespace_only_sub [] = []" "whitespace_only_sub sp = []"
    using spb by (simp_all add: whitespace_only_sub_def list_all_iff)
  have content: "\<not> list_all blank (sp @ c # r)" if "\<not> blank c" for c r
    using that by (simp add: list_all_iff)
  have w2: "whitespace_only_sub (sp @ t1) = sp @ t1"
    using content [OF nb(1), of r1] by (simp add: whitespace_only_sub_def t1)
  have w3: "whitespace_only_sub (sp @ t2) = sp @ t2"
    using content [OF nb(2), of r2] by (simp add: whitespace_only_sub_def t2)
  have normal: "map whitespace_only_sub (split_lines (version_report minimum installed)) =
      [[], sp @ t1, sp @ t2, []]"
    by (simp add: lines w1 w2 w3)
  have ne: "\<exists>x\<in>set sp \<union> set t1. \<not> blank x" "\<exists>x\<in>set sp \<union> set t2. \<not> blank x"
    using nb by (simp_all add: t1 t2)
  have indents: "leading_whitespace_findall [[], sp @ t1, sp @ t2, []] = [sp, sp]"
    using ne by (simp add: leading_whitespace_findall_def tw dw)
  have margin: "foldl narrow_margin None [sp, sp] = Some sp"
    by (simp add: startswith_def)
  have rm: "remove_margin sp [] = []" "remove_margin sp (sp @ t1) = t1" "remove_margin sp (sp @ t2) = t2"
    using spb(2) by (simp_all add: remove_margin_def startswith_def)
  have "dedent (version_report minimum installed) = join_lines [[], t1, t2, []]"
    using spb(2) margin by (simp add: dedent_def normal indents rm Let_def startswith_def)
  then show ?thesis by (simp add: t1_def t2_def)
qed

lemma minimum_version_text_eq: "minimum_version_text = ''1.11''"
  by code_simp

lemma installation_message_lines:
  "split_lines K2_INSTALLATION_MESSAGE =
     [''Could not import `k2`.'',
      ''Please install k2 in one of the following ways:'',
      ''1) Run `bash scripts/speech_recognition/k2/setup.sh`'',
      ''2) (not recommended) Use any approach from https://k2-fsa.github.io/k2/installation/index.html if your your cuda and pytorch versions are supported.'',
      ''It is advised to always install k2 using setup.sh only, as different versions of k2 may not interact with the NeMo code as expected.'']"
  by (simp add: K2_INSTALLATION_MESSAGE_def)

text \<open>
  C4, as the code has it. Given that \<open>Version\<close> reads the text \<open>1.11\<close> of the minimum as a
  version: when the package is not available the import of the guard raises
  \<open>ModuleNotFoundError\<close> with the five lines of installation advice, and has not touched
  \<open>k2\<close>, whatever importing it would have done. When \<open>k2\<close> imports and its version is
  below the minimum, the guard raises \<open>ImportError\<close>, but only after it has imported \<open>k2\<close>
  and read \<open>k2.__dev_version__\<close>; the message, once dedented, is an empty line, the line
  of the minimum and the line of the installed version (for versions whose text has no
  newline). Otherwise it has done the same with \<open>k2\<close> and ends with \<open>k2\<close> bound for the
  importer. The importer receives \<open>k2\<close> only from that normal end.
\<close>

theorem k2_guard_outcomes:
  assumes "Version env minimum_version_text = Some vmin"
  shows "minimum_version_text = ''1.11'' \<and>
         split_lines K2_INSTALLATION_MESSAGE =
           [''Could not import `k2`.'',
            ''Please install k2 in one of the following ways:'',
            ''1) Run `bash scripts/speech_recognition/k2/setup.sh`'',
            ''2) (not recommended) Use any approach from https://k2-fsa.github.io/k2/installation/index.html if your your cuda and pytorch versions are supported.'',
            ''It is advised to always install k2 using setup.sh only, as different versions of k2 may not interact with the NeMo code as expected.''] \<and>
         (\<not> package_available env ''k2'' \<longrightarrow>
            k2_guard env = ([], Inl (ModuleNotFoundError K2_INSTALLATION_MESSAGE)) \<and>
            k2_guard (env\<lparr>import_k2 := other_import, dev_version := other_version\<rparr>) = k2_guard env) \<and>
         (package_available env ''k2'' \<and> import_k2 env = Inr k2 \<and>
          Version env (dev_version env k2) = Some v \<and> version_less env v vmin \<longrightarrow>
            k2_guard env =
              ([Import_k2, Read_dev_version],
               Inl (ImportError (dedent (version_report (version_str env vmin) (version_str env v)))))) \<and>
         (CHR 0x0A \<notin> set minimum \<and> CHR 0x0A \<notin> set installed \<longrightarrow>
            dedent (version_report minimum installed) =
              CHR 0x0A # ''Minimum required k2 version: '' @ minimum @ '';'' @
              CHR 0x0A # ''Installed k2 version: '' @ installed @ [CHR 0x0A]) \<and>
         (package_available env ''k2'' \<and> import_k2 env = Inr k2 \<and>
          Version env (dev_version env k2) = Some v \<and> \<not> version_less env v vmin \<longrightarrow>
            k2_guard env = ([Import_k2, Read_dev_version], Inr k2))"
proof -
  have absent: "k2_guard env = ([], Inl (ModuleNotFoundError K2_INSTALLATION_MESSAGE)) \<and>
      k2_guard (env\<lparr>import_k2 := other_import, dev_version := other_version\<rparr>) = k2_guard env"
    if "\<not> package_available env ''k2''"
    using that assms by (simp add: k2_guard_def)
  have old: "k2_guard env =
      ([Import_k2, Read_dev_version],
       Inl (ImportError (dedent (version_report (version_str env vmin) (version_str env v)))))"
    if "package_available env ''k2''" "import_k2 env = Inr k2"
       "Version env (dev_version env k2) = Some v" "version_less env v vmin"
    using that assms by (simp add: k2_guard_def)
  have good: "k2_guard env = ([Import_k2, Read_dev_version], Inr k2)"
    if "package_available env ''k2''" "import_k2 env = Inr k2"
       "Version env (dev_version env k2) = Some v" "\<not> version_less env v vmin"
    using that assms by (simp add: k2_guard_def)
  have c3: "\<not> package_available env ''k2'' \<longrightarrow>
      k2_guard env = ([], Inl (ModuleNotFoundError K2_INSTALLATION_MESSAGE)) \<and>
      k2_guard (env\<lparr>import_k2 := other_import, dev_version := other_version\<rparr>) = k2_guard env"
    by (intro impI, rule absent)
  have c4: "package_available env ''k2'' \<and> import_k2 env = Inr k2 \<and>
      Version env (dev_version env k2) = Some v \<and> version_less env v vmin \<longrightarrow>
      k2_guard env =
        ([Import_k2, Read_dev_version],
         Inl (ImportError (dedent (version_report (version_str env vmin) (version_str env v)))))"
    by (intro impI, elim conjE, rule old)
  have c5: "CHR 0x0A \<notin> set minimum \<and> CHR 0x0A \<notin> set installed \<longrightarrow>
      dedent (version_report minimum installed) =
        CHR 0x0A # ''Minimum required k2 version: '' @ minimum @ '';'' @
        CHR 0x0A # ''Installed k2 version: '' @ installed @ [CHR 0x0A]"
    by (intro impI, elim conjE, rule dedent_version_report)
  have c6: "package_available env ''k2'' \<and> import_k2 env = Inr k2 \<and>
      Version env (dev_version env k2) = Some v \<and> \<not> version_less env v vmin \<longrightarrow>
      k2_guard env = ([Import_k2, Read_dev_version], Inr k2)"
    by (intro impI, elim conjE, rule good)
  from minimum_version_text_eq installation_message_lines c3 c4 c5 c6 show ?thesis
    by (intro conjI)
qed

theorem k2_guard_outcomes_witness:
  "Version (example_k2_env True ''1.9'') minimum_version_text = Some (1, 11) \<and>
   k2_guard (example_k2_env False ''1.24'') = ([], Inl (ModuleNotFoundError K2_INSTALLATION_MESSAGE)) \<and>
   k2_guard (example_k2_env True ''1.9'') =
     ([Import_k2, Read_dev_version],
      Inl (ImportError (dedent (version_report ''1.11'' ''1.9'')))) \<and>
   dedent (version_report ''1.11'' ''1.9'') =
     CHR 0x0A # ''Minimum required k2 version: 1.11;'' @ CHR 0x0A # ''Installed k2 version: 1.9'' @ [CHR 0x0A] \<and>
   k2_guard (example_k2_env True ''1.24'') = ([Import_k2, Read_dev_version], Inr ''1.24'')"
proof -
  have v: "Version (example_k2_env a i) minimum_version_text = Some (1, 11)" for a i
    by (simp add: minimum_version_text_eq example_k2_env_def)
  have s11: "version_str (example_k2_env a i) (1, 11) = ''1.11''" for a i
    unfolding example_k2_env_def by code_simp
  have s9: "version_str (example_k2_env a i) (1, 9) = ''1.9''" for a i
    unfolding example_k2_env_def by code_simp
  have absent: "\<not> package_available (example_k2_env False ''1.24'') ''k2''"
    by (simp add: example_k2_env_def)
  have old: "package_available (example_k2_env True ''1.9'') ''k2'' \<and>
      import_k2 (example_k2_env True ''1.9'') = Inr ''1.9'' \<and>
      Version (example_k2_env True ''1.9'') (dev_version (example_k2_env True ''1.9'') ''1.9'') = Some (1, 9) \<and>
      version_less (example_k2_env True ''1.9'') (1, 9) (1, 11)"
    by (simp add: example_k2_env_def)
  have good: "package_available (example_k2_env True ''1.24'') ''k2'' \<and>
      import_k2 (example_k2_env True ''1.24'') = Inr ''1.24'' \<and>
      Version (example_k2_env True ''1.24'') (dev_version (example_k2_env True ''1.24'') ''1.24'') = Some (1, 24) \<and>
      \<not> version_less (example_k2_env True ''1.24'') (1, 24) (1, 11)"
    by (simp add: example_k2_env_def)
  have lines: "CHR 0x0A \<notin> set ''1.11'' \<and> CHR 0x0A \<notin> set ''1.9''"
    by simp
  from k2_guard_outcomes [OF v [of False "''1.24''"]] absent
  have a: "k2_guard (example_k2_env False ''1.24'') = ([], Inl (ModuleNotFoundError K2_INSTALLATION_MESSAGE))"
    by blast
  note inst = k2_guard_outcomes [OF v [of True "''1.9''"], where ?k2.0 = "''1.9''" and v = "(1, 9)"
      and minimum = "''1.11''" and installed = "''1.9''"]
  from inst old
  have "k2_guard (example_k2_env True ''1.9'') =
      ([Import_k2, Read_dev_version],
       Inl (ImportError (dedent
         (version_report (version_str (example_k2_env True ''1.9'') (1, 11))
            (version_str (example_k2_env True ''1.9'') (1, 9))))))"
    by blast
  then have b: "k2_guard (example_k2_env True ''1.9'') =
      ([Import_k2, Read_dev_version], Inl (ImportError (dedent (version_report ''1.11'' ''1.9''))))"
    by (simp only: s11 s9)
  from inst lines
  have "dedent (version_report ''1.11'' ''1.9'') =
      CHR 0x0A # ''Minimum required k2 version: '' @ ''1.11'' @ '';'' @
      CHR 0x0A # ''Installed k2 version: '' @ ''1.9'' @ [CHR 0x0A]"
    by blast
  then have m: "dedent (version_report ''1.11'' ''1.9'') =
      CHR 0x0A # ''Minimum required k2 version: 1.11;'' @ CHR 0x0A # ''Installed k2 version: 1.9'' @ [CHR 0x0A]"
    by simp
  from k2_guard_outcomes [OF v [of True "''1.24''"], where ?k2.0 = "''1.24''" and v = "(1, 24)"] good
  have c: "k2_guard (example_k2_env True ''1.24'') = ([Import_k2, Read_dev_version], Inr ''1.24'')"
    by blast
  from v [of True "''1.9''"] a b m c show ?thesis by (intro conjI)
qed

text \<open>
  The claim as the spec words it, that both failures come before any use of \<open>k2\<close>, fails
  for the version that is too old: when the guard raises \<open>ImportError\<close> it has already
  imported \<open>k2\<close> and read its \<open>__dev_version__\<close>, as it must to know the version.
\<close>

theorem k2_guard_outcomes_counterexample:
  "fst (k2_guard (example_k2_env True ''1.9'')) = [Import_k2, Read_dev_version] \<and>
   snd (k2_guard (example_k2_env True ''1.9'')) =
     Inl (ImportError (dedent (version_report ''1.11'' ''1.9''))) \<and>
   fst (k2_guard (example_k2_env True ''1.9'')) \<noteq> []"
proof -
  have "minimum_version_text = ''1.11''" by code_simp
  moreover have "version_str (example_k2_env True ''1.9'') (1, 11) = ''1.11''"
    unfolding example_k2_env_def by code_simp
  moreover have "version_str (example_k2_env True ''1.9'') (1, 9) = ''1.9''"
    unfolding example_k2_env_def by code_simp
  moreover have "Version (example_k2_env True ''1.9'') ''1.11'' = Some (1, 11)"
    "Version (example_k2_env True ''1.9'') ''1.9'' = Some (1, 9)"
    "package_available (example_k2_env True ''1.9'') ''k2''"
    "import_k2 (example_k2_env True ''1.9'') = Inr ''1.9''"
    "dev_version (example_k2_env True ''1.9'') ''1.9'' = ''1.9''"
    "version_less (example_k2_env True ''1.9'') (1, 9) (1, 11)"
    by (simp_all add: example_k2_env_def)
  ultimately show ?thesis
    by (simp add: k2_guard_def)
qed

end
